theory Spec2Isabelle
  imports Complex_Main "HOL-Library.Multiset"
begin

section \<open>JavaScript values\<close>

text \<open>
  Both programs of the repository (the browser script and the Express server) work on
  parsed JSON. A value is one of the JSON shapes, or \<open>undefined\<close> (what reading a missing
  property gives). Numbers are modelled as real numbers: a parsed JSON document holds no
  NaN, and the sign of a difference of two finite doubles is the sign of the difference
  of their values. An object is the list of its properties in insertion order, read by
  the first binding of a name.
\<close>

datatype json =
    JUndefined
  | JNull
  | JBool bool
  | JNum real
  | JStr string
  | JArr "json list"
  | JObj "(string \<times> json) list"

type_synonym obj = "(string \<times> json) list"

datatype jstype = TUndefined | TObject | TBoolean | TNumber | TString

datatype error =
    TypeError
  | HttpError int string
  | NetworkError
  | SyntaxError
  | Failure string

text \<open>\<open>typeof v\<close>; \<open>typeof null\<close> and \<open>typeof []\<close> are \<open>"object"\<close>.\<close>

fun typeof :: "json \<Rightarrow> jstype" where
  "typeof JUndefined = TUndefined"
| "typeof JNull = TObject"
| "typeof (JBool b) = TBoolean"
| "typeof (JNum r) = TNumber"
| "typeof (JStr s) = TString"
| "typeof (JArr xs) = TObject"
| "typeof (JObj kvs) = TObject"

text \<open>The truth value of \<open>v\<close> in a condition: \<open>undefined\<close>, \<open>null\<close>, \<open>false\<close>,
  \<open>0\<close> and \<open>""\<close> are falsy, every array and object is truthy.\<close>

fun truthy :: "json \<Rightarrow> bool" where
  "truthy JUndefined = False"
| "truthy JNull = False"
| "truthy (JBool b) = b"
| "truthy (JNum r) = (r \<noteq> 0)"
| "truthy (JStr s) = (s \<noteq> [])"
| "truthy (JArr xs) = True"
| "truthy (JObj kvs) = True"

definition lookup :: "obj \<Rightarrow> string \<Rightarrow> json" where
  "lookup kvs k = (case map_of kvs k of None \<Rightarrow> JUndefined | Some v \<Rightarrow> v)"

text \<open>
  The member access \<open>v.k\<close>. On \<open>null\<close> and \<open>undefined\<close> it throws a TypeError. On a
  number, a boolean, a string or an array it reads the prototype, which has none of the
  names the programs read (\<open>fares\<close>, \<open>adult\<close>, \<open>price\<close>, \<open>crs\<close>, \<open>lat\<close>, \<open>long\<close>,
  \<open>lon\<close>, \<open>name\<close>, \<open>ticket\<close>, ...), so the result is \<open>undefined\<close>.
\<close>

fun get :: "json \<Rightarrow> string \<Rightarrow> error + json" where
  "get JUndefined k = Inl TypeError"
| "get JNull k = Inl TypeError"
| "get (JObj kvs) k = Inr (lookup kvs k)"
| "get v k = Inr JUndefined"

text \<open>The same access on a value known not to be \<open>null\<close> or \<open>undefined\<close>.\<close>

fun field :: "json \<Rightarrow> string \<Rightarrow> json" where
  "field (JObj kvs) k = lookup kvs k"
| "field v k = JUndefined"

text \<open>\<open>a ?? b\<close>\<close>

definition nullish :: "json \<Rightarrow> json \<Rightarrow> json" where
  "nullish a b = (if a = JNull \<or> a = JUndefined then b else a)"

text \<open>\<open>a || b\<close> on values that are already evaluated.\<close>

definition or_js :: "json \<Rightarrow> json \<Rightarrow> json" where
  "or_js a b = (if truthy a then a else b)"

text \<open>Assigning property \<open>k\<close> of an object literal under construction: an existing
  property keeps its place, a new one goes last.\<close>

fun obj_set :: "obj \<Rightarrow> string \<Rightarrow> json \<Rightarrow> obj" where
  "obj_set [] k v = [(k, v)]"
| "obj_set ((k', v') # kvs) k v =
     (if k' = k then (k, v) # kvs else (k', v') # obj_set kvs k v)"

text \<open>The decimal name of an array index.\<close>

fun digits :: "nat \<Rightarrow> string" where
  "digits n =
     (if n < 10 then [''0123456789'' ! n]
      else digits (n div 10) @ [''0123456789'' ! (n mod 10)])"

declare digits.simps [simp del]

text \<open>The own enumerable properties \<open>{...v}\<close> copies: those of an object, the indexed
  elements of an array or a string, none of any other value.\<close>

fun spread :: "json \<Rightarrow> obj" where
  "spread (JObj kvs) = kvs"
| "spread (JArr xs) = zip (map digits [0..<length xs]) xs"
| "spread (JStr s) = zip (map digits [0..<length s]) (map (\<lambda>c. JStr [c]) s)"
| "spread v = []"

text \<open>\<open>xs.map(f)\<close> and \<open>xs.filter(p)\<close> with a callback that may throw: the first
  exception ends the call.\<close>

fun mapE :: "('a \<Rightarrow> error + 'b) \<Rightarrow> 'a list \<Rightarrow> error + 'b list" where
  "mapE f [] = Inr []"
| "mapE f (x # xs) =
     (case f x of
        Inl e \<Rightarrow> Inl e
      | Inr y \<Rightarrow> (case mapE f xs of Inl e \<Rightarrow> Inl e | Inr ys \<Rightarrow> Inr (y # ys)))"

fun filterE :: "('a \<Rightarrow> error + bool) \<Rightarrow> 'a list \<Rightarrow> error + 'a list" where
  "filterE p [] = Inr []"
| "filterE p (x # xs) =
     (case p x of
        Inl e \<Rightarrow> Inl e
      | Inr b \<Rightarrow>
          (case filterE p xs of
             Inl e \<Rightarrow> Inl e
           | Inr ys \<Rightarrow> Inr (if b then x # ys else ys)))"

text \<open>The number a value holds, for values already known to be numbers.\<close>

fun num :: "json \<Rightarrow> real" where
  "num (JNum r) = r"
| "num v = 0"

section \<open>Platform interfaces\<close>

text \<open>
  What \<open>fetch(url)\<close> gives: the response's status, its body text, and the value
  \<open>res.json()\<close> parses from it (\<open>None\<close> when the body is not JSON). A rejected
  \<open>fetch\<close> is \<open>None\<close> in place of a response.
\<close>

record httpres =
  status :: int
  body_text :: string
  parsed :: "json option"

definition ok :: "httpres \<Rightarrow> bool" where
  "ok res = (200 \<le> status res \<and> status res \<le> 299)"

text \<open>
  \<open>URLSearchParams\<close>: the list of name-value pairs. \<open>set(name, value)\<close> overwrites the
  first pair of that name and removes the others, or appends a pair when there is none;
  \<open>toString()\<close> joins the encoded pairs with \<open>&\<close>.
\<close>

type_synonym params = "(string \<times> string) list"

fun set_first :: "params \<Rightarrow> string \<Rightarrow> string \<Rightarrow> params" where
  "set_first [] k v = []"
| "set_first ((k', v') # ps) k v =
     (if k' = k then (k, v) # filter (\<lambda>p. fst p \<noteq> k) ps else (k', v') # set_first ps k v)"

definition params_set :: "params \<Rightarrow> string \<Rightarrow> string \<Rightarrow> params" where
  "params_set ps k v = (if map_of ps k = None then ps @ [(k, v)] else set_first ps k v)"

fun params_toString :: "(string \<Rightarrow> string) \<Rightarrow> params \<Rightarrow> string" where
  "params_toString enc [] = []"
| "params_toString enc [(k, v)] = enc k @ ''='' @ enc v"
| "params_toString enc ((k, v) # ps) = enc k @ ''='' @ enc v @ ''&'' @ params_toString enc ps"

text \<open>\<^verbatim>\<open>if (x) params.set(name, x);\<close> for a query parameter \<open>x\<close>: an absent parameter is
  \<open>undefined\<close>, and of the strings only the empty one is falsy.\<close>

definition set_if_given :: "params \<Rightarrow> string \<Rightarrow> string option \<Rightarrow> params" where
  "set_if_given ps k x =
     (case x of None \<Rightarrow> ps | Some v \<Rightarrow> if v = [] then ps else params_set ps k v)"

section \<open>The browser script\<close>

subsection \<open>parseCheapestFare\<close>

text \<open>
  \<^verbatim>\<open>const getPrice = f =>
       (typeof f.adult === "number" ? f.adult : (f.price && f.price.adult)) ?? null;\<close>
\<close>

definition getPrice :: "json \<Rightarrow> error + json" where
  "getPrice f =
     (case get f ''adult'' of
        Inl e \<Rightarrow> Inl e
      | Inr a \<Rightarrow>
          if typeof a = TNumber then Inr (nullish a JNull)
          else (case get f ''price'' of
                  Inl e \<Rightarrow> Inl e
                | Inr pr \<Rightarrow>
                    if truthy pr
                    then (case get pr ''adult'' of
                            Inl e \<Rightarrow> Inl e
                          | Inr v \<Rightarrow> Inr (nullish v JNull))
                    else Inr (nullish pr JNull)))"

text \<open>\<^verbatim>\<open>f => ({...f, p: getPrice(f)})\<close>\<close>

definition withP :: "json \<Rightarrow> error + obj" where
  "withP f = (case getPrice f of Inl e \<Rightarrow> Inl e | Inr p \<Rightarrow> Inr (obj_set (spread f) ''p'' p))"

text \<open>
  \<^verbatim>\<open>function parseCheapestFare(faresJson) {
    if (!faresJson || !Array.isArray(faresJson.fares)) return null;
    const withPrice = faresJson.fares
      .map(f => ({...f, p: getPrice(f)}))
      .filter(f => typeof f.p === "number");
    if (!withPrice.length) return null;
    withPrice.sort((a,b) => a.p - b.p);
    return withPrice[0];
  }\<close>
  \<open>Array.prototype.sort\<close> is stable, and the comparator orders by the number \<open>p\<close>, so
  the sorted array is the stable sort by that key.
\<close>

definition parseCheapestFare :: "json \<Rightarrow> error + json" where
  "parseCheapestFare faresJson =
     (if \<not> truthy faresJson then Inr JNull
      else (case get faresJson ''fares'' of
              Inl e \<Rightarrow> Inl e
            | Inr (JArr fares) \<Rightarrow>
                (case mapE withP fares of
                   Inl e \<Rightarrow> Inl e
                 | Inr mapped \<Rightarrow>
                     (let withPrice = filter (\<lambda>f. typeof (lookup f ''p'') = TNumber) mapped
                      in if length withPrice = 0 then Inr JNull
                         else Inr (JObj (hd (sort_key (\<lambda>f. num (lookup f ''p'')) withPrice)))))
            | Inr _ \<Rightarrow> Inr JNull))"

subsection \<open>loadStations\<close>

text \<open>
  The script's globals: \<open>STATIONS\<close> (always an array of the object literals
  \<open>loadStations\<close> builds, empty at first), \<open>cache.stations\<close> (\<open>null\<close> until the first
  load) and \<open>cache.fares\<close>. The key of \<open>cache.fares\<close> is
  \<open>JSON.stringify({ orig, dest, ...opts })\<close>, which is one-to-one on these objects; the
  model keeps the triple itself as the key.
\<close>

record opts =
  journey :: string
  date :: "string option"
  time :: "string option"
  rlc :: "string option"

type_synonym fare_key = "string \<times> string \<times> opts"

record client =
  STATIONS :: "obj list"
  stations_cache :: "obj list option"
  fares_cache :: "fare_key \<Rightarrow> json option"

text \<open>What the page takes from the browser: \<open>fetch\<close> (\<open>None\<close> when it rejects) and the
  percent-encoding of \<open>URLSearchParams.toString\<close>.\<close>

record browser =
  fetch :: "string \<Rightarrow> httpres option"
  urlEncode :: "string \<Rightarrow> string"

definition stationsURL :: string where
  "stationsURL = ''/api/stations''"

text \<open>\<^verbatim>\<open>s => s.crs && s.lat && s.long\<close>, as the condition of \<open>filter\<close>.\<close>

definition keepStation :: "json \<Rightarrow> error + bool" where
  "keepStation s =
     (if s = JNull \<or> s = JUndefined then Inl TypeError
      else Inr (truthy (field s ''crs'') \<and> truthy (field s ''lat'') \<and> truthy (field s ''long'')))"

text \<open>\<^verbatim>\<open>s => ({ name: s.name, crs: s.crs, lat: s.lat, lon: s.long || s.lon })\<close>\<close>

definition toStation :: "json \<Rightarrow> error + obj" where
  "toStation s =
     (if s = JNull \<or> s = JUndefined then Inl TypeError
      else Inr [(''name'', field s ''name''),
                (''crs'', field s ''crs''),
                (''lat'', field s ''lat''),
                (''lon'', or_js (field s ''long'') (field s ''lon''))])"

text \<open>
  \<^verbatim>\<open>async function loadStations() {
    if (cache.stations) {
      STATIONS = cache.stations;
      return;
    }
    const res = await fetch(stationsURL, { cache: "force-cache" });
    if (!res.ok) throw new Error("Failed to load stations data");
    const raw = await res.json();
    STATIONS = raw.filter(s => s.crs && s.lat && s.long)
      .map(s => ({ name: s.name, crs: s.crs, lat: s.lat, lon: s.long || s.lon }));
    cache.stations = STATIONS;
  }\<close>
  A \<open>raw\<close> that is not an array has no \<open>filter\<close> method: a TypeError.
\<close>

definition loadStations :: "browser \<Rightarrow> client \<Rightarrow> (error + unit) \<times> client" where
  "loadStations B c =
     (case stations_cache c of
        Some st \<Rightarrow> (Inr (), c\<lparr>STATIONS := st\<rparr>)
      | None \<Rightarrow>
          (case fetch B stationsURL of
             None \<Rightarrow> (Inl NetworkError, c)
           | Some res \<Rightarrow>
               if \<not> ok res then (Inl (Failure ''Failed to load stations data''), c)
               else (case parsed res of
                       None \<Rightarrow> (Inl SyntaxError, c)
                     | Some (JArr raw) \<Rightarrow>
                         (case filterE keepStation raw of
                            Inl e \<Rightarrow> (Inl e, c)
                          | Inr kept \<Rightarrow>
                              (case mapE toStation kept of
                                 Inl e \<Rightarrow> (Inl e, c)
                               | Inr st \<Rightarrow>
                                   (Inr (), c\<lparr>STATIONS := st, stations_cache := Some st\<rparr>)))
                     | Some _ \<Rightarrow> (Inl TypeError, c))))"

subsection \<open>haversine and findNearbyStations\<close>

text \<open>
  The geometry runs on IEEE doubles. A double is modelled as \<open>NaN\<close> or as the real number
  it stands for, and the arithmetic of doubles is not computed in the model: the rounded
  operations \<open>+\<close>, \<open>-\<close>, \<open>*\<close>, \<open>/\<close>, \<open>**\<close>, the functions of \<open>Math\<close> and the constant
  \<open>Math.PI\<close> are parameters, so every statement holds for whatever the engine's
  arithmetic returns, a \<open>NaN\<close> included. An infinite intermediate result, which
  \<open>haversine\<close> can only turn into \<open>NaN\<close> (the sine and the cosine of an infinity are
  \<open>NaN\<close>), is counted as \<open>NaN\<close>; an infinite radius is not modelled. The coordinates
  of stations are numbers, as the stations dataset has them. A station with its
  distance, \<open>{...s, distance}\<close>, is the record extended by one field.
\<close>

datatype number = NaN | Num real

record math =
  PI :: number
  fadd :: "number \<Rightarrow> number \<Rightarrow> number"
  fsub :: "number \<Rightarrow> number \<Rightarrow> number"
  fmul :: "number \<Rightarrow> number \<Rightarrow> number"
  fdiv :: "number \<Rightarrow> number \<Rightarrow> number"
  fpow :: "number \<Rightarrow> number \<Rightarrow> number"
  fsin :: "number \<Rightarrow> number"
  fcos :: "number \<Rightarrow> number"
  fsqrt :: "number \<Rightarrow> number"
  fatan2 :: "number \<Rightarrow> number \<Rightarrow> number"

text \<open>\<open>x <= y\<close> on doubles: false as soon as one side is \<open>NaN\<close>.\<close>

fun le_num :: "number \<Rightarrow> number \<Rightarrow> bool" where
  "le_num (Num x) (Num y) = (x \<le> y)"
| "le_num x y = False"

text \<open>The real number a double stands for, for doubles known not to be \<open>NaN\<close>.\<close>

fun the_num :: "number \<Rightarrow> real" where
  "the_num (Num x) = x"
| "the_num NaN = 0"

record point =
  lat :: number
  lon :: number

record station = point +
  name :: string
  crs :: string

record located = station +
  distance :: number

text \<open>\<^verbatim>\<open>function toRadians(d) { return d * Math.PI / 180; }\<close>\<close>

definition toRadians :: "math \<Rightarrow> number \<Rightarrow> number" where
  "toRadians M d = fdiv M (fmul M d (PI M)) (Num 180)"

text \<open>
  \<^verbatim>\<open>function haversine(a, b) {
    const R = 6371; // km
    const dLat = toRadians(b.lat - a.lat);
    const dLon = toRadians(b.lon - a.lon);
    const s1 = Math.sin(dLat/2)**2
             + Math.cos(toRadians(a.lat))*Math.cos(toRadians(b.lat))*Math.sin(dLon/2)**2;
    const c = 2 * Math.atan2(Math.sqrt(s1), Math.sqrt(1-s1));
    return R * c;
  }\<close>
\<close>

definition haversine :: "math \<Rightarrow> 'a point_scheme \<Rightarrow> 'b point_scheme \<Rightarrow> number" where
  "haversine M a b =
     (let R = Num 6371;
          dLat = toRadians M (fsub M (lat b) (lat a));
          dLon = toRadians M (fsub M (lon b) (lon a));
          s1 = fadd M
                 (fpow M (fsin M (fdiv M dLat (Num 2))) (Num 2))
                 (fmul M
                    (fmul M (fcos M (toRadians M (lat a))) (fcos M (toRadians M (lat b))))
                    (fpow M (fsin M (fdiv M dLon (Num 2))) (Num 2)));
          c = fmul M (Num 2) (fatan2 M (fsqrt M s1) (fsqrt M (fsub M (Num 1) s1)))
      in fmul M R c)"

text \<open>
  \<open>xs.slice(0, end)\<close> for an integer \<open>end\<close>: a negative \<open>end\<close> counts from the end of
  the array.
\<close>

definition slice0 :: "'a list \<Rightarrow> int \<Rightarrow> 'a list" where
  "slice0 xs e =
     (let len = int (length xs);
          final = (if e < 0 then max (len + e) 0 else min e len)
      in take (nat final) xs)"

definition withDistance :: "math \<Rightarrow> 'a point_scheme \<Rightarrow> station \<Rightarrow> located" where
  "withDistance M center s =
     \<lparr>lat = lat s, lon = lon s, name = name s, crs = crs s,
      distance = haversine M center s\<rparr>"

text \<open>
  \<^verbatim>\<open>function findNearbyStations(center, radiusKm, limit) {
    const withDist = STATIONS.map(s => ({...s, distance: haversine(center, s)}));
    return withDist
      .filter(s => s.distance <= radiusKm)
      .sort((a,b) => a.distance - b.distance)
      .slice(0, limit);
  }\<close>
  The global \<open>STATIONS\<close> is the second argument. A distance that passed the filter is
  not \<open>NaN\<close>, and the difference of two such doubles has the sign of the difference of
  their values; \<open>Array.prototype.sort\<close> is stable, so the sorted array is the stable sort
  by the value of the distance.
\<close>

definition findNearbyStations ::
  "math \<Rightarrow> station list \<Rightarrow> 'a point_scheme \<Rightarrow> number \<Rightarrow> int \<Rightarrow> located list" where
  "findNearbyStations M stations center radiusKm limit =
     (let withDist = map (withDistance M center) stations
      in slice0
           (sort_key (\<lambda>s. the_num (distance s))
              (filter (\<lambda>s. le_num (distance s) radiusKm) withDist))
           limit)"

text \<open>
  Exact arithmetic, for comparison and for worked examples: every operation returns the
  real result, and \<open>NaN\<close> where there is none (a division by zero, the square root of a
  negative number, a \<open>NaN\<close> operand). Of the powers it gives the square, the one the script
  takes. \<open>atan2 y x\<close> is the angle of the point \<open>(x, y)\<close>, between \<open>-\<pi>\<close> and \<open>\<pi>\<close>.
\<close>

definition atan2 :: "real \<Rightarrow> real \<Rightarrow> real" where
  "atan2 y x =
     (if 0 < x then arctan (y / x)
      else if x < 0 then (if 0 \<le> y then arctan (y / x) + pi else arctan (y / x) - pi)
      else if 0 < y then pi / 2
      else if y < 0 then - pi / 2
      else 0)"

fun lift1 :: "(real \<Rightarrow> real) \<Rightarrow> number \<Rightarrow> number" where
  "lift1 f (Num x) = Num (f x)"
| "lift1 f NaN = NaN"

fun lift2 :: "(real \<Rightarrow> real \<Rightarrow> real) \<Rightarrow> number \<Rightarrow> number \<Rightarrow> number" where
  "lift2 f (Num x) (Num y) = Num (f x y)"
| "lift2 f x y = NaN"

fun exact_div :: "number \<Rightarrow> number \<Rightarrow> number" where
  "exact_div (Num x) (Num y) = (if y = 0 then NaN else Num (x / y))"
| "exact_div x y = NaN"

fun exact_pow :: "number \<Rightarrow> number \<Rightarrow> number" where
  "exact_pow (Num x) (Num y) = (if y = 2 then Num (x * x) else NaN)"
| "exact_pow x y = NaN"

fun exact_sqrt :: "number \<Rightarrow> number" where
  "exact_sqrt (Num x) = (if x < 0 then NaN else Num (sqrt x))"
| "exact_sqrt NaN = NaN"

definition exact :: math where
  "exact =
     \<lparr>PI = Num pi,
      fadd = lift2 (\<lambda>x y. x + y),
      fsub = lift2 (\<lambda>x y. x - y),
      fmul = lift2 (\<lambda>x y. x * y),
      fdiv = exact_div,
      fpow = exact_pow,
      fsin = lift1 sin,
      fcos = lift1 cos,
      fsqrt = exact_sqrt,
      fatan2 = lift2 atan2\<rparr>"

subsection \<open>getFares\<close>

definition brFaresBase :: string where
  "brFaresBase = ''/api/fares''"

text \<open>
  \<^verbatim>\<open>const params = new URLSearchParams({ orig, dest });
  if (opts.date) params.set("date", opts.date);
  if (opts.time) params.set("time", opts.time);
  if (opts.rlc) params.set("rlc", opts.rlc);
  if (opts.journey === "return") params.set("rtn", "1");\<close>
\<close>

definition getFares_params :: "string \<Rightarrow> string \<Rightarrow> opts \<Rightarrow> params" where
  "getFares_params orig dest os =
     (let params = [(''orig'', orig), (''dest'', dest)];
          params = set_if_given params ''date'' (date os);
          params = set_if_given params ''time'' (time os);
          params = set_if_given params ''rlc'' (rlc os);
          params = (if journey os = ''return'' then params_set params ''rtn'' ''1'' else params)
      in params)"

text \<open>
  \<^verbatim>\<open>const url = `${brFaresBase}?${params.toString()}`;
  const res = await fetch(url, { headers: { "Accept": "application/json" }});
  if (!res.ok) throw new Error(`Fare fetch failed ${res.status}`);
  const json = await res.json();\<close>
\<close>

definition fetchFares :: "browser \<Rightarrow> string \<Rightarrow> string \<Rightarrow> opts \<Rightarrow> error + json" where
  "fetchFares B orig dest os =
     (let url = brFaresBase @ ''?'' @ params_toString (urlEncode B) (getFares_params orig dest os)
      in case fetch B url of
           None \<Rightarrow> Inl NetworkError
         | Some res \<Rightarrow>
             if \<not> ok res then Inl (Failure ''Fare fetch failed'')
             else (case parsed res of None \<Rightarrow> Inl SyntaxError | Some json \<Rightarrow> Inr json))"

text \<open>
  \<^verbatim>\<open>async function getFares(orig, dest, opts = {}) {
    ...
    const key = cacheKey({ orig, dest, ...opts });
    if (cache.fares.has(key)) {
      return cache.fares.get(key);
    }
    ...
    cache.fares.set(key, json);
    return json;
  }\<close>
\<close>

definition getFares ::
  "browser \<Rightarrow> string \<Rightarrow> string \<Rightarrow> opts \<Rightarrow> client \<Rightarrow> (error + json) \<times> client" where
  "getFares B orig dest os c =
     (let key = (orig, dest, os)
      in case fares_cache c key of
           Some json \<Rightarrow> (Inr json, c)
         | None \<Rightarrow>
             (case fetchFares B orig dest os of
                Inl e \<Rightarrow> (Inl e, c)
              | Inr json \<Rightarrow> (Inr json, c\<lparr>fares_cache := (fares_cache c)(key \<mapsto> json)\<rparr>)))"

subsection \<open>handleCompare\<close>

text \<open>
  \<^verbatim>\<open>function stationByCRS(crs) {
    return STATIONS.find(s => s.crs === crs) || { name: crs, crs };
  }\<close>
\<close>

definition stationByCRS :: "obj list \<Rightarrow> string \<Rightarrow> obj" where
  "stationByCRS stations c =
     (case find (\<lambda>s. lookup s ''crs'' = JStr c) stations of
        Some s \<Rightarrow> s
      | None \<Rightarrow> [(''name'', JStr c), (''crs'', JStr c)])"

text \<open>
  \<^verbatim>\<open>const origin = stationByCRS(crs);
  rows.push({
    origin: crs,
    originName: origin.name || crs,
    dest: destCRS,
    destName,
    ticket: cheapest.ticket || cheapest.ticket_code || "",
    ticketName: cheapest.name || cheapest.ticket_name || "Cheapest",
    price: cheapest.p,
  });\<close>
  A row is the object literal.
\<close>

type_synonym row = obj

definition makeRow :: "obj list \<Rightarrow> string \<Rightarrow> string \<Rightarrow> string \<Rightarrow> json \<Rightarrow> row" where
  "makeRow stations c destCRS dName cheapest =
     (let station = stationByCRS stations c
      in [(''origin'', JStr c),
          (''originName'', or_js (lookup station ''name'') (JStr c)),
          (''dest'', JStr destCRS),
          (''destName'', JStr dName),
          (''ticket'',
             or_js (or_js (field cheapest ''ticket'') (field cheapest ''ticket_code'')) (JStr [])),
          (''ticketName'',
             or_js (or_js (field cheapest ''name'') (field cheapest ''ticket_name''))
               (JStr ''Cheapest'')),
          (''price'', field cheapest ''p'')])"

text \<open>
  The body of the \<open>try\<close> block for one origin: the row to push, if any, or the exception
  that ends the block.
  \<^verbatim>\<open>const fares = await getFares(crs, destCRS, opts);
  const cheapest = parseCheapestFare(fares);
  if (cheapest) { ... rows.push({...}); }\<close>
\<close>

definition tryOrigin ::
  "browser \<Rightarrow> string \<Rightarrow> string \<Rightarrow> opts \<Rightarrow> string \<Rightarrow> client \<Rightarrow> (error + row option) \<times> client" where
  "tryOrigin B destCRS dName os c cl =
     (case getFares B c destCRS os cl of
        (Inl e, cl1) \<Rightarrow> (Inl e, cl1)
      | (Inr fares, cl1) \<Rightarrow>
          (case parseCheapestFare fares of
             Inl e \<Rightarrow> (Inl e, cl1)
           | Inr cheapest \<Rightarrow>
               if truthy cheapest
               then (Inr (Some (makeRow (STATIONS cl1) c destCRS dName cheapest)), cl1)
               else (Inr None, cl1)))"

text \<open>
  \<^verbatim>\<open>const rows = [];
  for (const crs of checked) {
    try { ... } catch (e) { console.warn("Fare fetch error", e); }
  }\<close>
\<close>

fun compareLoop ::
  "browser \<Rightarrow> string \<Rightarrow> string \<Rightarrow> opts \<Rightarrow> string list \<Rightarrow> row list \<Rightarrow> client \<Rightarrow> row list \<times> client" where
  "compareLoop B destCRS dName os [] rows cl = (rows, cl)"
| "compareLoop B destCRS dName os (c # checked) rows cl =
     (case tryOrigin B destCRS dName os c cl of
        (Inr (Some r), cl1) \<Rightarrow> compareLoop B destCRS dName os checked (rows @ [r]) cl1
      | (Inr None, cl1) \<Rightarrow> compareLoop B destCRS dName os checked rows cl1
      | (Inl e, cl1) \<Rightarrow> compareLoop B destCRS dName os checked rows cl1)"

text \<open>What the page shows: the rows of the last \<open>renderResults\<close>, and the status line
  with its error flag (\<open>setStatus(msg, isError=false)\<close>).\<close>

record page =
  results :: "row list"
  status_msg :: string
  isError :: bool

text \<open>
  The loop with what follows it, lines 277 to 301 of the script:
  \<^verbatim>\<open>rows.sort((a,b) => a.price - b.price);
  renderResults(rows);
  setStatus(rows.length ? `Found ${rows.length} routes.` : "No routes found.");\<close>
\<close>

definition compareOrigins ::
  "browser \<Rightarrow> string \<Rightarrow> string \<Rightarrow> opts \<Rightarrow> string list \<Rightarrow> client \<Rightarrow> page \<times> client" where
  "compareOrigins B destCRS dName os checked cl =
     (let (rows, cl1) = compareLoop B destCRS dName os checked [] cl;
          rows = sort_key (\<lambda>r. num (lookup r ''price'')) rows
      in (\<lparr>results = rows,
           status_msg = (if length rows \<noteq> 0 then ''Found '' @ digits (length rows) @ '' routes.''
                         else ''No routes found.''),
           isError = False\<rparr>, cl1))"

text \<open>
  \<open>handleCompare\<close>, from the values it has read from the page (the checked origins, the
  resolved destination and the journey options):
  \<^verbatim>\<open>if (!checked.length) return setStatus("Select at least one nearby station.", true);\<close>
  and then the loop.
\<close>

definition handleCompare ::
  "browser \<Rightarrow> string \<Rightarrow> string \<Rightarrow> opts \<Rightarrow> string list \<Rightarrow> page \<Rightarrow> client \<Rightarrow> page \<times> client" where
  "handleCompare B destCRS dName os checked pg cl =
     (if length checked = 0
      then (pg\<lparr>status_msg := ''Select at least one nearby station.'', isError := True\<rparr>, cl)
      else compareOrigins B destCRS dName os checked cl)"

text \<open>
  For the statements about the loop: the row one origin contributes when its \<open>try\<close>
  block is run on its own from the client state \<open>cl\<close>, if any.
\<close>

definition outcome ::
  "browser \<Rightarrow> string \<Rightarrow> string \<Rightarrow> opts \<Rightarrow> client \<Rightarrow> string \<Rightarrow> row option" where
  "outcome B d dn os cl c =
     (case fst (getFares B c d os cl) of
        Inl e \<Rightarrow> None
      | Inr fares \<Rightarrow>
          (case parseCheapestFare fares of
             Inl e \<Rightarrow> None
           | Inr cheapest \<Rightarrow>
               if cheapest = JNull then None
               else Some (makeRow (STATIONS cl) c d dn cheapest)))"

section \<open>The server\<close>

subsection \<open>The in-memory cache\<close>

text \<open>
  \<^verbatim>\<open>const cache = new Map();\<close> holds objects \<open>{ value, expires }\<close>. The server's mutable
  state is the cache, the clock \<open>Date.now()\<close> reads (milliseconds), the content of the
  mirror file \<open>data/stations.json\<close> (\<open>None\<close> while it cannot be read), and, for the
  statements about what a handler touches, the trace of its cache and upstream
  operations.
\<close>

record entry =
  val :: json
  expires :: int

datatype event = CacheGet string | CacheDelete string | CachePut string | Fetch string

record server =
  cache :: "string \<Rightarrow> entry option"
  clock :: int
  mirror :: "string option"
  trace :: "event list"

text \<open>
  \<^verbatim>\<open>const putCache = (key, value, ttlMs = 10 * 60 * 1000) => {
    const expires = Date.now() + ttlMs;
    cache.set(key, { value, expires });
  };\<close>
  An omitted \<open>ttlMs\<close> is \<open>None\<close>.
\<close>

definition putCache :: "string \<Rightarrow> json \<Rightarrow> int option \<Rightarrow> server \<Rightarrow> server" where
  "putCache key value ttlMs s =
     (let ttl = (case ttlMs of None \<Rightarrow> 10 * 60 * 1000 | Some t \<Rightarrow> t);
          expires = clock s + ttl
      in s\<lparr>cache := (cache s)(key \<mapsto> \<lparr>val = value, expires = expires\<rparr>),
           trace := trace s @ [CachePut key]\<rparr>)"

text \<open>
  \<^verbatim>\<open>const getCache = (key) => {
    const hit = cache.get(key);
    if (!hit) return null;
    if (Date.now() > hit.expires) {
      cache.delete(key);
      return null;
    }
    return hit.value;
  };\<close>
\<close>

definition getCache :: "string \<Rightarrow> server \<Rightarrow> json \<times> server" where
  "getCache key s =
     (let s1 = s\<lparr>trace := trace s @ [CacheGet key]\<rparr>
      in case cache s key of
           None \<Rightarrow> (JNull, s1)
         | Some hit \<Rightarrow>
             if clock s > expires hit
             then (JNull, s1\<lparr>cache := (cache s)(key := None),
                              trace := trace s1 @ [CacheDelete key]\<rparr>)
             else (val hit, s1))"

subsection \<open>cachedFetchJson\<close>

text \<open>
  The network is a function of the URL that gives the response (\<open>None\<close> for a
  rejected \<open>fetch\<close>) and tells how long the exchange took.
\<close>

text \<open>
  What the server takes from its platform and its configuration: the network, the three
  TTLs (\<open>Number(process.env...) || default\<close>), \<open>JSON.parse\<close> (\<open>None\<close> where it throws),
  \<open>JSON.stringify\<close>, \<open>encodeURIComponent\<close>, the percent-encoding of
  \<open>URLSearchParams.toString\<close>, and whether the mirror file can be written.
\<close>

record env =
  net :: "string \<Rightarrow> nat \<times> httpres option"
  STATIONS_MS :: int
  FARES_MS :: int
  SEARCH_MS :: int
  JSON_parse :: "string \<Rightarrow> json option"
  JSON_stringify :: "json \<Rightarrow> string"
  encodeURIComponent :: "string \<Rightarrow> string"
  formEncode :: "string \<Rightarrow> string"
  disk_ok :: bool

text \<open>
  \<^verbatim>\<open>async function cachedFetchJson(url, ttlMs = 10 * 60 * 1000, opts = {}) {
    const key = `fetch:${url}`;
    const hit = getCache(key);
    if (hit) return hit;
    const res = await fetch(url, {...});
    if (!res.ok) {
      const text = await res.text();
      const err = new Error(`Upstream ${res.status}: ${text.slice(0, 200)}`);
      err.status = res.status;
      throw err;
    }
    const json = await res.json();
    putCache(key, json, ttlMs);
    return json;
  }\<close>
  The thrown error keeps \<open>err.status\<close> and the body snippet of its message.
\<close>

definition cachedFetchJson ::
  "env \<Rightarrow> string \<Rightarrow> int option \<Rightarrow> server \<Rightarrow> (error + json) \<times> server" where
  "cachedFetchJson E url ttlMs s =
     (let key = ''fetch:'' @ url;
          (hit, s1) = getCache key s
      in if truthy hit then (Inr hit, s1)
         else
           (let (took, r) = net E url;
                s2 = s1\<lparr>clock := clock s1 + int took, trace := trace s1 @ [Fetch url]\<rparr>
            in case r of
                 None \<Rightarrow> (Inl NetworkError, s2)
               | Some res \<Rightarrow>
                   if \<not> ok res
                   then (Inl (HttpError (status res) (take 200 (body_text res))), s2)
                   else (case parsed res of
                           None \<Rightarrow> (Inl SyntaxError, s2)
                         | Some json \<Rightarrow>
                             (Inr json, putCache key json (Some (case ttlMs of None \<Rightarrow> 10 * 60 * 1000 | Some t \<Rightarrow> t)) s2))))"

text \<open>The server as it starts at time \<open>t\<close>: an empty cache, no mirror file yet.\<close>

definition boot :: "int \<Rightarrow> server" where
  "boot t = \<lparr>cache = Map.empty, clock = t, mirror = None, trace = []\<rparr>"

text \<open>
  An environment for worked examples: the network is the parameter, the TTLs are the
  defaults of the source (24 h, 10 min, 1 h), the texts the examples send need no
  escaping, and the mirror file, when it is written, holds the text \<open>[]\<close>, the one text
  \<open>JSON.parse\<close> is asked to read.
\<close>

definition example_env :: "(string \<Rightarrow> nat \<times> httpres option) \<Rightarrow> env" where
  "example_env n =
     \<lparr>net = n,
      STATIONS_MS = 24 * 60 * 60 * 1000,
      FARES_MS = 10 * 60 * 1000,
      SEARCH_MS = 60 * 60 * 1000,
      JSON_parse = (\<lambda>raw. if raw = ''[]'' then Some (JArr []) else None),
      JSON_stringify = (\<lambda>j. ''[]''),
      encodeURIComponent = (\<lambda>x. x),
      formEncode = (\<lambda>x. x),
      disk_ok = True\<rparr>"

subsection \<open>The endpoints\<close>

text \<open>
  A handler's answer: the HTTP status (\<open>res.status(...)\<close>, 200 when the handler sets
  none) and the JSON body (\<open>res.json(...)\<close>). \<open>req.query\<close> is read as a map from a
  parameter's name to its string; a parameter given several times or with brackets, which
  the query parser turns into an array or an object, is outside the model.
\<close>

record reply =
  code :: int
  body :: json

type_synonym query = "string \<Rightarrow> string option"

text \<open>\<open>e.status || 502\<close>: only the error \<open>cachedFetchJson\<close> throws for a response that
  is not ok has a \<open>status\<close>.\<close>

fun status_or_502 :: "error \<Rightarrow> int" where
  "status_or_502 (HttpError st msg) = (if st = 0 then 502 else st)"
| "status_or_502 e = 502"

definition error_body :: "string \<Rightarrow> json" where
  "error_body msg = JObj [(''error'', JStr msg)]"

definition stationsRemote :: string where
  "stationsRemote =
     ''https://raw.githubusercontent.com/davwheat/uk-railway-stations/main/stations.json''"

text \<open>\<^verbatim>\<open>mkdir(dataDir, { recursive: true })
    .then(() => writeFile(stationsLocalPath, JSON.stringify(json))).catch(()=>{});\<close>\<close>

definition writeMirror :: "env \<Rightarrow> json \<Rightarrow> server \<Rightarrow> server" where
  "writeMirror E json s = (if disk_ok E then s\<lparr>mirror := Some (JSON_stringify E json)\<rparr> else s)"

text \<open>
  \<^verbatim>\<open>app.get("/api/stations", async (req, res) => {
    try {
      const json = await cachedFetchJson(stationsRemote, TTL.STATIONS_MS);
      res.json(json);
      // write-through async
      mkdir(...).then(() => writeFile(...)).catch(()=>{});
    } catch (e) {
      try {
        const raw = await readFile(stationsLocalPath, "utf8");
        res.json(JSON.parse(raw));
      } catch {
        res.status(e.status || 502).json({ error: "Failed to retrieve stations" });
      }
    }
  });\<close>
\<close>

definition api_stations :: "env \<Rightarrow> server \<Rightarrow> reply \<times> server" where
  "api_stations E s =
     (case cachedFetchJson E stationsRemote (Some (STATIONS_MS E)) s of
        (Inr json, s1) \<Rightarrow> (\<lparr>code = 200, body = json\<rparr>, writeMirror E json s1)
      | (Inl e, s1) \<Rightarrow>
          (case mirror s1 of
             None \<Rightarrow>
               (\<lparr>code = status_or_502 e, body = error_body ''Failed to retrieve stations''\<rparr>, s1)
           | Some raw \<Rightarrow>
               (case JSON_parse E raw of
                  None \<Rightarrow>
                    (\<lparr>code = status_or_502 e,
                      body = error_body ''Failed to retrieve stations''\<rparr>, s1)
                | Some fallback \<Rightarrow> (\<lparr>code = 200, body = fallback\<rparr>, s1))))"

text \<open>
  \<open>String.prototype.trim\<close>. A string is the list of its code units, here below 256;
  the white space and line terminators in that range are TAB, LF, VT, FF, CR, SP and
  NBSP.
\<close>

definition isWhiteSpace :: "char \<Rightarrow> bool" where
  "isWhiteSpace c = (of_char c \<in> {9, 10, 11, 12, 13, 32, 160 :: nat})"

definition trim :: "string \<Rightarrow> string" where
  "trim s = rev (dropWhile isWhiteSpace (rev (dropWhile isWhiteSpace s)))"

text \<open>\<^verbatim>\<open>(req.query.term || "").toString().trim()\<close>\<close>

definition query_term :: "query \<Rightarrow> string" where
  "query_term q = trim (case q ''term'' of None \<Rightarrow> [] | Some t \<Rightarrow> if t = [] then [] else t)"

text \<open>
  \<^verbatim>\<open>app.get("/api/loc", async (req, res) => {
    const term = (req.query.term || "").toString().trim();
    if (!term) return res.json([]);
    try {
      const url = `https://gw.brfares.com/legacy_ac_loc?term=${encodeURIComponent(term)}`;
      const json = await cachedFetchJson(url, TTL.SEARCH_MS);
      res.json(json);
    } catch (e) {
      res.status(e.status || 502).json({ error: "Failed to search locations" });
    }
  });\<close>
  \<open>/api/railcards\<close> is the same handler on \<open>legacy_ac_rlc\<close>, with its own message.
\<close>

definition search_proxy :: "string \<Rightarrow> string \<Rightarrow> env \<Rightarrow> query \<Rightarrow> server \<Rightarrow> reply \<times> server" where
  "search_proxy base msg E q s =
     (let term = query_term q
      in if term = [] then (\<lparr>code = 200, body = JArr []\<rparr>, s)
         else
           (let url = base @ encodeURIComponent E term
            in case cachedFetchJson E url (Some (SEARCH_MS E)) s of
                 (Inr json, s1) \<Rightarrow> (\<lparr>code = 200, body = json\<rparr>, s1)
               | (Inl e, s1) \<Rightarrow> (\<lparr>code = status_or_502 e, body = error_body msg\<rparr>, s1)))"

definition api_loc :: "env \<Rightarrow> query \<Rightarrow> server \<Rightarrow> reply \<times> server" where
  "api_loc = search_proxy ''https://gw.brfares.com/legacy_ac_loc?term='' ''Failed to search locations''"

definition api_railcards :: "env \<Rightarrow> query \<Rightarrow> server \<Rightarrow> reply \<times> server" where
  "api_railcards =
     search_proxy ''https://gw.brfares.com/legacy_ac_rlc?term='' ''Failed to search railcards''"

text \<open>
  \<^verbatim>\<open>const params = new URLSearchParams({ orig, dest });
  if (date) params.set("date", date);
  if (time) params.set("time", time);
  if (rlc) params.set("rlc", rlc);
  if (rtn) params.set("rtn", "1");\<close>
\<close>

definition fares_params :: "string \<Rightarrow> string \<Rightarrow> query \<Rightarrow> params" where
  "fares_params orig dest q =
     (let params = [(''orig'', orig), (''dest'', dest)];
          params = set_if_given params ''date'' (q ''date'');
          params = set_if_given params ''time'' (q ''time'');
          params = set_if_given params ''rlc'' (q ''rlc'');
          params = (case q ''rtn'' of
                      None \<Rightarrow> params
                    | Some rtn \<Rightarrow> if rtn = [] then params else params_set params ''rtn'' ''1'')
      in params)"

definition fares_url :: "env \<Rightarrow> string \<Rightarrow> string \<Rightarrow> query \<Rightarrow> string" where
  "fares_url E orig dest q =
     ''https://gw.brfares.com/legacy_querysimple?''
       @ params_toString (formEncode E) (fares_params orig dest q)"

text \<open>
  \<^verbatim>\<open>app.get("/api/fares", async (req, res) => {
    const { orig, dest, date, time, rlc, rtn } = req.query;
    if (!orig || !dest) return res.status(400).json({ error: "orig and dest are required" });
    ...
    const url = `https://gw.brfares.com/legacy_querysimple?${params.toString()}`;
    try {
      const json = await cachedFetchJson(url, TTL.FARES_MS);
      res.json(json);
    } catch (e) {
      res.status(e.status || 502).json({ error: "Failed to fetch fares" });
    }
  });\<close>
\<close>

definition api_fares :: "env \<Rightarrow> query \<Rightarrow> server \<Rightarrow> reply \<times> server" where
  "api_fares E q s =
     (case (q ''orig'', q ''dest'') of
        (Some orig, Some dest) \<Rightarrow>
          if orig = [] \<or> dest = []
          then (\<lparr>code = 400, body = error_body ''orig and dest are required''\<rparr>, s)
          else (case cachedFetchJson E (fares_url E orig dest q) (Some (FARES_MS E)) s of
                  (Inr json, s1) \<Rightarrow> (\<lparr>code = 200, body = json\<rparr>, s1)
                | (Inl e, s1) \<Rightarrow>
                    (\<lparr>code = status_or_502 e, body = error_body ''Failed to fetch fares''\<rparr>, s1))
      | _ \<Rightarrow> (\<lparr>code = 400, body = error_body ''orig and dest are required''\<rparr>, s))"

section \<open>Properties of parseCheapestFare\<close>

lemma parseCheapestFare_spec_scenario:
  "parseCheapestFare
     (JObj [(''fares'', JArr [JObj [(''adult'', JNum 4500), (''ticket'', JStr ''SVR'')],
                              JObj [(''adult'', JNum 3200), (''ticket'', JStr ''OFF'')]])])
   = Inr (JObj [(''adult'', JNum 3200), (''ticket'', JStr ''OFF''), (''p'', JNum 3200)])"
  by (simp add: parseCheapestFare_def withP_def getPrice_def lookup_def nullish_def)

text \<open>
  Claim C1 (the cheapest-fare extraction excludes fares lacking a numeric adult price).
  The code at the input
  \<^verbatim>\<open>{fares:[{price:0,ticket:"ZERO"},{adult:3200,ticket:"OFF"}]}\<close>:
  the first fare has no adult price at all, yet \<open>f.price && f.price.adult\<close> stops at the
  falsy number \<open>0\<close>, \<open>0 ?? null\<close> is \<open>0\<close>, and the fare is returned as the cheapest one
  with price 0. With any other number in \<open>price\<close> (here 5) the same fare is excluded and
  the fare priced 3200 is returned.
\<close>

theorem parseCheapestFare_zero_price:
  "parseCheapestFare
     (JObj [(''fares'', JArr [JObj [(''price'', JNum 0), (''ticket'', JStr ''ZERO'')],
                              JObj [(''adult'', JNum 3200), (''ticket'', JStr ''OFF'')]])])
   = Inr (JObj [(''price'', JNum 0), (''ticket'', JStr ''ZERO''), (''p'', JNum 0)])
   \<and>
   parseCheapestFare
     (JObj [(''fares'', JArr [JObj [(''price'', JNum 5), (''ticket'', JStr ''ZERO'')],
                              JObj [(''adult'', JNum 3200), (''ticket'', JStr ''OFF'')]])])
   = Inr (JObj [(''adult'', JNum 3200), (''ticket'', JStr ''OFF''), (''p'', JNum 3200)])"
  by (simp add: parseCheapestFare_def withP_def getPrice_def lookup_def nullish_def)

text \<open>
  A second case the extraction misses: on a \<open>null\<close> entry of the list \<open>f.adult\<close> throws, so
  the call ends in a TypeError although the list holds a priced fare.
\<close>

lemma parseCheapestFare_null_entry:
  "parseCheapestFare
     (JObj [(''fares'', JArr [JNull, JObj [(''adult'', JNum 3200), (''ticket'', JStr ''OFF'')]])])
   = Inl TypeError"
  by (simp add: parseCheapestFare_def withP_def getPrice_def lookup_def)

lemma parseCheapestFare_range:
  assumes "parseCheapestFare j = Inr c"
  shows "c = JNull \<or> (\<exists>kvs. c = JObj kvs \<and> typeof (lookup kvs ''p'') = TNumber)"
proof (cases "c = JNull")
  case True
  then show ?thesis by simp
next
  case False
  from assms False obtain fares mapped where
    m: "mapE withP fares = Inr mapped"
    and ne: "filter (\<lambda>f. typeof (lookup f ''p'') = TNumber) mapped \<noteq> []"
    and c: "c = JObj (hd (sort_key (\<lambda>f. num (lookup f ''p''))
                 (filter (\<lambda>f. typeof (lookup f ''p'') = TNumber) mapped)))"
    by (auto simp: parseCheapestFare_def Let_def split: if_splits sum.splits json.splits)
  let ?w = "filter (\<lambda>f. typeof (lookup f ''p'') = TNumber) mapped"
  have "sort_key (\<lambda>f. num (lookup f ''p'')) ?w \<noteq> []"
    using ne by (metis length_0_conv length_sort)
  then have "hd (sort_key (\<lambda>f. num (lookup f ''p'')) ?w) \<in> set (sort_key (\<lambda>f. num (lookup f ''p'')) ?w)"
    by (rule hd_in_set)
  then have "hd (sort_key (\<lambda>f. num (lookup f ''p'')) ?w) \<in> set ?w"
    by simp
  then have "typeof (lookup (hd (sort_key (\<lambda>f. num (lookup f ''p'')) ?w)) ''p'') = TNumber"
    by simp
  with c show ?thesis by blast
qed

text \<open>
  Where no callback throws, the extraction is the minimum it is meant to be: \<open>null\<close> when
  no mapped fare has a number as its \<open>p\<close>, and otherwise a mapped fare whose \<open>p\<close> is a
  number not above the \<open>p\<close> of any other.
\<close>

lemma hd_sort_key_le:
  assumes "x \<in> set xs"
  shows "f (hd (sort_key f xs)) \<le> f x"
proof -
  have s: "sorted (map f (sort_key f xs))" by simp
  have ne: "sort_key f xs \<noteq> []" using assms by (metis empty_iff empty_set set_sort)
  then obtain y ys where y: "sort_key f xs = y # ys" by (cases "sort_key f xs") auto
  have "x \<in> set (sort_key f xs)" using assms by simp
  with s y show ?thesis by auto
qed

lemma parseCheapestFare_minimum:
  assumes "truthy j" and "get j ''fares'' = Inr (JArr fares)" and "mapE withP fares = Inr mapped"
  shows "(\<forall>f\<in>set mapped. typeof (lookup f ''p'') \<noteq> TNumber) \<longrightarrow> parseCheapestFare j = Inr JNull"
    and "f \<in> set mapped \<Longrightarrow> typeof (lookup f ''p'') = TNumber \<Longrightarrow>
         \<exists>c. parseCheapestFare j = Inr (JObj c) \<and> c \<in> set mapped
             \<and> typeof (lookup c ''p'') = TNumber
             \<and> num (lookup c ''p'') \<le> num (lookup f ''p'')"
proof -
  let ?w = "filter (\<lambda>f. typeof (lookup f ''p'') = TNumber) mapped"
  let ?k = "\<lambda>f. num (lookup f ''p'')"
  have p: "parseCheapestFare j = (if ?w = [] then Inr JNull else Inr (JObj (hd (sort_key ?k ?w))))"
    using assms by (simp add: parseCheapestFare_def Let_def)
  show "(\<forall>f\<in>set mapped. typeof (lookup f ''p'') \<noteq> TNumber) \<longrightarrow> parseCheapestFare j = Inr JNull"
    unfolding p by (auto simp: filter_empty_conv)
  assume f: "f \<in> set mapped" "typeof (lookup f ''p'') = TNumber"
  then have fw: "f \<in> set ?w" by simp
  then have ne: "?w \<noteq> []" by (metis empty_iff empty_set)
  then have "sort_key ?k ?w \<noteq> []" by (metis length_0_conv length_sort)
  then have "hd (sort_key ?k ?w) \<in> set (sort_key ?k ?w)" by (rule hd_in_set)
  then have h: "hd (sort_key ?k ?w) \<in> set ?w" by simp
  have le: "?k (hd (sort_key ?k ?w)) \<le> ?k f" using fw by (rule hd_sort_key_le)
  show "\<exists>c. parseCheapestFare j = Inr (JObj c) \<and> c \<in> set mapped
             \<and> typeof (lookup c ''p'') = TNumber
             \<and> num (lookup c ''p'') \<le> num (lookup f ''p'')"
    using p ne h le by auto
qed

section \<open>Properties of loadStations\<close>

lemma truthy_iff: "truthy v \<longleftrightarrow> v \<notin> {JUndefined, JNull, JBool False, JNum 0, JStr []}"
  by (cases v) auto

lemma filterE_ok:
  "\<forall>x\<in>set xs. p x = Inr (q x) \<Longrightarrow> filterE p xs = Inr (filter q xs)"
  by (induction xs) auto

lemma mapE_ok:
  "\<forall>x\<in>set xs. f x = Inr (g x) \<Longrightarrow> mapE f xs = Inr (map g xs)"
  by (induction xs) auto

lemma filterE_keepStation_throws:
  "JNull \<in> set xs \<or> JUndefined \<in> set xs \<Longrightarrow> filterE keepStation xs = Inl TypeError"
proof (induction xs)
  case Nil
  then show ?case by simp
next
  case (Cons x xs)
  show ?case
  proof (cases "x = JNull \<or> x = JUndefined")
    case True
    then show ?thesis by (auto simp: keepStation_def)
  next
    case False
    with Cons.prems have "JNull \<in> set xs \<or> JUndefined \<in> set xs" by auto
    from Cons.IH [OF this] False show ?thesis by (simp add: keepStation_def)
  qed
qed

text \<open>
  Claim C9. On a first load (\<open>cache.stations\<close> still empty) of a fetched array \<open>raw\<close>
  without \<open>null\<close> entries, \<open>loadStations\<close> keeps exactly the entries whose \<open>crs\<close>, \<open>lat\<close>
  and \<open>long\<close> are all present and truthy: an entry is dropped as soon as one of the three
  is absent (\<open>undefined\<close>) or is \<open>null\<close>, \<open>false\<close>, \<open>0\<close> or \<open>""\<close>. So a latitude or
  longitude of exactly 0 drops the station, and so does a longitude given only as \<open>lon\<close>;
  the \<open>lon\<close> of every station kept is its \<open>long\<close>. An array with a \<open>null\<close> entry makes
  the load throw a TypeError and leaves the stations as they were.
\<close>

theorem loadStations_filter:
  assumes "stations_cache c = None"
    and "fetch B stationsURL = Some res" and "ok res" and "parsed res = Some (JArr raw)"
  shows "(JNull \<notin> set raw \<and> JUndefined \<notin> set raw \<longrightarrow>
           loadStations B c =
             (Inr (),
              c\<lparr>STATIONS :=
                   map (\<lambda>s. [(''name'', field s ''name''), (''crs'', field s ''crs''),
                             (''lat'', field s ''lat''), (''lon'', field s ''long'')])
                     (filter (\<lambda>s. \<forall>k\<in>set [''crs'', ''lat'', ''long''].
                                 field s k \<notin> {JUndefined, JNull, JBool False, JNum 0, JStr []})
                        raw),
                 stations_cache :=
                   Some (map (\<lambda>s. [(''name'', field s ''name''), (''crs'', field s ''crs''),
                             (''lat'', field s ''lat''), (''lon'', field s ''long'')])
                     (filter (\<lambda>s. \<forall>k\<in>set [''crs'', ''lat'', ''long''].
                                 field s k \<notin> {JUndefined, JNull, JBool False, JNum 0, JStr []})
                        raw))\<rparr>))
       \<and> (JNull \<in> set raw \<or> JUndefined \<in> set raw \<longrightarrow> loadStations B c = (Inl TypeError, c))"
proof (intro conjI impI)
  assume nn: "JNull \<notin> set raw \<and> JUndefined \<notin> set raw"
  let ?q = "\<lambda>s. \<forall>k\<in>set [''crs'', ''lat'', ''long''].
                field s k \<notin> {JUndefined, JNull, JBool False, JNum 0, JStr []}"
  let ?g = "\<lambda>s. [(''name'', field s ''name''), (''crs'', field s ''crs''),
                  (''lat'', field s ''lat''), (''lon'', field s ''long'')]"
  have "\<forall>s\<in>set raw. keepStation s = Inr (?q s)"
    using nn by (auto simp: keepStation_def truthy_iff)
  then have f: "filterE keepStation raw = Inr (filter ?q raw)"
    by (rule filterE_ok)
  have "\<forall>s\<in>set (filter ?q raw). toStation s = Inr (?g s)"
    using nn by (auto simp: toStation_def or_js_def truthy_iff)
  then have m: "mapE toStation (filter ?q raw) = Inr (map ?g (filter ?q raw))"
    by (rule mapE_ok)
  show "loadStations B c =
          (Inr (), c\<lparr>STATIONS := map ?g (filter ?q raw),
                     stations_cache := Some (map ?g (filter ?q raw))\<rparr>)"
    using assms f m by (simp add: loadStations_def)
next
  assume "JNull \<in> set raw \<or> JUndefined \<in> set raw"
  then have "filterE keepStation raw = Inl TypeError"
    by (rule filterE_keepStation_throws)
  then show "loadStations B c = (Inl TypeError, c)"
    using assms by (simp add: loadStations_def)
qed

theorem loadStations_filter_witness:
  "loadStations
     \<lparr>fetch = (\<lambda>u. Some \<lparr>status = 200, body_text = [],
         parsed = Some (JArr
           [JObj [(''name'', JStr ''Paddington''), (''crs'', JStr ''PAD''),
                  (''lat'', JNum 51.5), (''long'', JNum (- 0.17))],
            JObj [(''name'', JStr ''Null Island''), (''crs'', JStr ''NUL''),
                  (''lat'', JNum 0), (''long'', JNum 1)],
            JObj [(''name'', JStr ''Greenwich''), (''crs'', JStr ''GNW''),
                  (''lat'', JNum 51.4), (''long'', JNum 0)],
            JObj [(''name'', JStr ''Lon Only''), (''crs'', JStr ''LON''),
                  (''lat'', JNum 52), (''lon'', JNum 1)]])\<rparr>),
      urlEncode = (\<lambda>x. x)\<rparr>
     \<lparr>STATIONS = [], stations_cache = None, fares_cache = Map.empty\<rparr>
   = (Inr (),
      \<lparr>STATIONS = [[(''name'', JStr ''Paddington''), (''crs'', JStr ''PAD''),
                    (''lat'', JNum 51.5), (''lon'', JNum (- 0.17))]],
       stations_cache = Some [[(''name'', JStr ''Paddington''), (''crs'', JStr ''PAD''),
                    (''lat'', JNum 51.5), (''lon'', JNum (- 0.17))]],
       fares_cache = Map.empty\<rparr>)"
  using loadStations_filter [of "\<lparr>STATIONS = [], stations_cache = None, fares_cache = Map.empty\<rparr>"
     "\<lparr>fetch = (\<lambda>u. Some \<lparr>status = 200, body_text = [],
         parsed = Some (JArr
           [JObj [(''name'', JStr ''Paddington''), (''crs'', JStr ''PAD''),
                  (''lat'', JNum 51.5), (''long'', JNum (- 0.17))],
            JObj [(''name'', JStr ''Null Island''), (''crs'', JStr ''NUL''),
                  (''lat'', JNum 0), (''long'', JNum 1)],
            JObj [(''name'', JStr ''Greenwich''), (''crs'', JStr ''GNW''),
                  (''lat'', JNum 51.4), (''long'', JNum 0)],
            JObj [(''name'', JStr ''Lon Only''), (''crs'', JStr ''LON''),
                  (''lat'', JNum 52), (''lon'', JNum 1)]])\<rparr>),
      urlEncode = (\<lambda>x. x)\<rparr>"
     "\<lparr>status = 200, body_text = [],
         parsed = Some (JArr
           [JObj [(''name'', JStr ''Paddington''), (''crs'', JStr ''PAD''),
                  (''lat'', JNum 51.5), (''long'', JNum (- 0.17))],
            JObj [(''name'', JStr ''Null Island''), (''crs'', JStr ''NUL''),
                  (''lat'', JNum 0), (''long'', JNum 1)],
            JObj [(''name'', JStr ''Greenwich''), (''crs'', JStr ''GNW''),
                  (''lat'', JNum 51.4), (''long'', JNum 0)],
            JObj [(''name'', JStr ''Lon Only''), (''crs'', JStr ''LON''),
                  (''lat'', JNum 52), (''lon'', JNum 1)]])\<rparr>"
     "[JObj [(''name'', JStr ''Paddington''), (''crs'', JStr ''PAD''),
                  (''lat'', JNum 51.5), (''long'', JNum (- 0.17))],
            JObj [(''name'', JStr ''Null Island''), (''crs'', JStr ''NUL''),
                  (''lat'', JNum 0), (''long'', JNum 1)],
            JObj [(''name'', JStr ''Greenwich''), (''crs'', JStr ''GNW''),
                  (''lat'', JNum 51.4), (''long'', JNum 0)],
            JObj [(''name'', JStr ''Lon Only''), (''crs'', JStr ''LON''),
                  (''lat'', JNum 52), (''lon'', JNum 1)]]"]
  by (simp add: ok_def lookup_def)

section \<open>Properties of findNearbyStations\<close>

text \<open>
  In exact arithmetic \<open>haversine\<close> is the great-circle distance on a sphere of radius
  6371: the number \<open>s1\<close> lies between 0 and 1, \<open>1 - 2 * s1\<close> is the cosine of the central
  angle of the two points, and \<open>2 * atan2 (sqrt s1) (sqrt (1 - s1))\<close> is that angle.
\<close>

lemma hav_bounds:
  fixes p1 p2 b :: real
  shows "0 \<le> (sin ((p2 - p1) / 2))\<^sup>2 + cos p1 * cos p2 * (sin b)\<^sup>2"
    and "(sin ((p2 - p1) / 2))\<^sup>2 + cos p1 * cos p2 * (sin b)\<^sup>2 \<le> 1"
proof -
  define t where "t = (sin b)\<^sup>2"
  define c where "c = cos (p2 - p1)"
  define k where "k = cos (p1 + p2)"
  have t0: "0 \<le> t" unfolding t_def by (rule zero_le_power2)
  have "(sin b)\<^sup>2 = 1 - (cos b)\<^sup>2" by (rule sin_squared_eq)
  moreover have "0 \<le> (cos b)\<^sup>2" by (rule zero_le_power2)
  ultimately have t1: "t \<le> 1" unfolding t_def by linarith
  note t = t0 t1
  have c: "- 1 \<le> c" "c \<le> 1" by (simp_all add: c_def)
  have k: "- 1 \<le> k" "k \<le> 1" by (simp_all add: k_def)
  have "2 * ((p2 - p1) / 2) = p2 - p1" by simp
  then have "cos (p2 - p1) = 1 - 2 * (sin ((p2 - p1) / 2))\<^sup>2"
    using cos_double_sin [of "(p2 - p1) / 2"] by (simp only:)
  then have s: "(sin ((p2 - p1) / 2))\<^sup>2 = (1 - c) / 2" by (simp add: c_def)
  have "cos p1 * cos p2 = (cos (p1 - p2) + cos (p1 + p2)) / 2"
    by (rule cos_times_cos)
  also have "cos (p1 - p2) = cos (p2 - p1)"
    by (metis cos_minus minus_diff_eq)
  finally have cc: "cos p1 * cos p2 = (c + k) / 2" by (simp add: c_def k_def)
  have e: "(sin ((p2 - p1) / 2))\<^sup>2 + cos p1 * cos p2 * (sin b)\<^sup>2
             = (1 - c * (1 - t) + k * t) / 2"
    unfolding s cc t_def [symmetric] by (simp add: field_simps)
  have a1: "c * (1 - t) \<le> 1 - t"
    using mult_right_mono [of c 1 "1 - t"] c t by simp
  have a2: "- (1 - t) \<le> c * (1 - t)"
    using mult_right_mono [of "- 1" c "1 - t"] c t by simp
  have a3: "k * t \<le> t"
    using mult_right_mono [of k 1 t] k t by simp
  have a4: "- t \<le> k * t"
    using mult_right_mono [of "- 1" k t] k t by simp
  show "0 \<le> (sin ((p2 - p1) / 2))\<^sup>2 + cos p1 * cos p2 * (sin b)\<^sup>2"
    unfolding e using a1 a4 by simp
  show "(sin ((p2 - p1) / 2))\<^sup>2 + cos p1 * cos p2 * (sin b)\<^sup>2 \<le> 1"
    unfolding e using a2 a3 by simp
qed


lemma hav_central_angle:
  fixes p1 p2 dl :: real
  shows "1 - 2 * ((sin ((p2 - p1) / 2))\<^sup>2 + cos p1 * cos p2 * (sin (dl / 2))\<^sup>2)
         = sin p1 * sin p2 + cos p1 * cos p2 * cos dl"
proof -
  have "2 * ((p2 - p1) / 2) = p2 - p1" by simp
  then have "cos (p2 - p1) = 1 - 2 * (sin ((p2 - p1) / 2))\<^sup>2"
    using cos_double_sin [of "(p2 - p1) / 2"] by (simp only:)
  then have a: "2 * (sin ((p2 - p1) / 2))\<^sup>2 = 1 - cos (p2 - p1)" by simp
  have "2 * (dl / 2) = dl" by simp
  then have "cos dl = 1 - 2 * (sin (dl / 2))\<^sup>2"
    using cos_double_sin [of "dl / 2"] by (simp only:)
  then have b: "2 * (sin (dl / 2))\<^sup>2 = 1 - cos dl" by simp
  have c: "cos (p2 - p1) = cos p2 * cos p1 + sin p2 * sin p1"
    by (rule cos_diff)
  have "1 - 2 * ((sin ((p2 - p1) / 2))\<^sup>2 + cos p1 * cos p2 * (sin (dl / 2))\<^sup>2)
        = 1 - 2 * (sin ((p2 - p1) / 2))\<^sup>2 - cos p1 * cos p2 * (2 * (sin (dl / 2))\<^sup>2)"
    by (simp add: algebra_simps)
  also have "\<dots> = cos (p2 - p1) - cos p1 * cos p2 * (1 - cos dl)"
    unfolding a b by simp
  also have "\<dots> = sin p1 * sin p2 + cos p1 * cos p2 * cos dl"
    unfolding c by (simp add: algebra_simps)
  finally show ?thesis .
qed

lemma two_atan2_arccos:
  assumes "0 \<le> h" and "h \<le> 1"
  shows "2 * atan2 (sqrt h) (sqrt (1 - h)) = arccos (1 - 2 * h)"
proof -
  define u where "u = arccos (1 - 2 * h) / 2"
  have r: "- 1 \<le> 1 - 2 * h" "1 - 2 * h \<le> 1" using assms by simp_all
  have u0: "0 \<le> u" unfolding u_def using arccos_lbound [OF r] by simp
  have u1: "u \<le> pi / 2" unfolding u_def using arccos_ubound [OF r] by simp
  have "cos (2 * u) = 1 - 2 * h" unfolding u_def using cos_arccos [OF r] by simp
  then have s2: "(sin u)\<^sup>2 = h"
    using cos_double_sin [of u] by simp
  then have c2: "(cos u)\<^sup>2 = 1 - h"
    using cos_squared_eq [of u] by simp
  have sn: "0 \<le> sin u" using u0 u1 by (intro sin_ge_zero) (use pi_gt_zero in linarith)+
  have cn: "0 \<le> cos u" using u0 u1 by (intro cos_ge_zero) linarith+
  have s: "sqrt h = sin u" using s2 sn by (metis real_sqrt_abs abs_of_nonneg)
  have c: "sqrt (1 - h) = cos u" using c2 cn by (metis real_sqrt_abs abs_of_nonneg)
  have "atan2 (sin u) (cos u) = u"
  proof (cases "cos u = 0")
    case True
    then have "(sin u)\<^sup>2 = 1" using sin_squared_eq [of u] by simp
    then have s1: "sin u = 1" using sn by (simp add: power2_eq_1_iff)
    have "u = pi / 2"
    proof (rule ccontr)
      assume "u \<noteq> pi / 2"
      then have "u < pi / 2" using u1 by simp
      then have "0 < cos u" using u0 by (intro cos_gt_zero_pi) (use pi_gt_zero in linarith)+
      with True show False by simp
    qed
    then show ?thesis using True s1 by (simp add: atan2_def)
  next
    case False
    then have p: "0 < cos u" using cn by simp
    have lt: "u < pi / 2"
    proof (rule ccontr)
      assume "\<not> u < pi / 2"
      then have "u = pi / 2" using u1 by simp
      then have "cos u = 0" by (simp only: cos_pi_half)
      then show False using False by simp
    qed
    have "arctan (tan u) = u"
      by (rule arctan_tan) (use u0 lt pi_gt_zero in linarith)+
    then show ?thesis using p by (simp add: atan2_def tan_def)
  qed
  then show ?thesis unfolding s c u_def by simp
qed

lemma haversine_exact:
  assumes "lat a = Num pa" "lon a = Num la" "lat b = Num pb" "lon b = Num lb"
  shows "haversine exact a b =
           Num (6371 * arccos (sin (pa * pi / 180) * sin (pb * pi / 180)
                  + cos (pa * pi / 180) * cos (pb * pi / 180) * cos ((lb - la) * pi / 180)))"
proof -
  define h where "h = (sin ((pb * pi / 180 - pa * pi / 180) / 2))\<^sup>2
      + cos (pa * pi / 180) * cos (pb * pi / 180) * (sin ((lb - la) * pi / 180 / 2))\<^sup>2"
  have b: "0 \<le> h" "h \<le> 1"
    unfolding h_def using hav_bounds [of "pb * pi / 180" "pa * pi / 180" "(lb - la) * pi / 180 / 2"]
    by simp_all
  have d: "(pb - pa) * pi / 180 = pb * pi / 180 - pa * pi / 180"
    by (simp add: field_simps)
  have "haversine exact a b = Num (6371 * (2 * atan2 (sqrt h) (sqrt (1 - h))))"
    using assms b unfolding haversine_def toRadians_def exact_def Let_def
    by (simp add: power2_eq_square h_def d)
  also have "2 * atan2 (sqrt h) (sqrt (1 - h)) = arccos (1 - 2 * h)"
    using b by (rule two_atan2_arccos)
  also have "1 - 2 * h = sin (pa * pi / 180) * sin (pb * pi / 180)
                  + cos (pa * pi / 180) * cos (pb * pi / 180) * cos ((lb - la) * pi / 180)"
    unfolding h_def by (rule hav_central_angle)
  finally show ?thesis .
qed

lemma slice0_nonneg: "0 \<le> e \<Longrightarrow> slice0 xs e = take (nat e) xs"
  by (simp add: slice0_def Let_def min_def)

lemma le_num_not_NaN: "le_num x y \<Longrightarrow> x \<noteq> NaN"
  by (cases x) auto

text \<open>
  Claim C2, as amended. Whatever the arithmetic of doubles returns, for a limit that is
  not negative \<open>findNearbyStations\<close> returns the first \<open>limit\<close> entries of the stations
  whose distance from the center, as \<open>haversine\<close> computes it, is a number not above
  \<open>radiusKm\<close>, sorted ascending by that distance with ties in their original order: the
  result is sorted, has at most \<open>limit\<close> entries, holds only stations whose computed
  distance is within the radius, each with that distance, never a station whose computed
  distance is \<open>NaN\<close>, and holds all the stations within the radius when there are at
  most \<open>limit\<close>. The computed distance is the haversine formula with radius 6371, which
  in exact arithmetic is the great-circle distance (last conjunct); in doubles it is that
  distance up to rounding, and \<open>NaN\<close> where rounding takes \<open>s1\<close> above 1, as it can for
  nearly antipodal points.
\<close>

theorem findNearbyStations_nearest:
  assumes "0 \<le> limit"
  shows "findNearbyStations M stations center radiusKm limit
           = take (nat limit)
               (sort_key (\<lambda>s. the_num (distance s))
                  (filter (\<lambda>s. le_num (distance s) radiusKm)
                     (map (withDistance M center) stations)))
       \<and> sorted (map (\<lambda>s. the_num (distance s))
                  (findNearbyStations M stations center radiusKm limit))
       \<and> int (length (findNearbyStations M stations center radiusKm limit)) \<le> limit
       \<and> (\<forall>r\<in>set (findNearbyStations M stations center radiusKm limit).
             le_num (distance r) radiusKm
             \<and> (\<exists>s\<in>set stations.
                   le_num (haversine M center s) radiusKm \<and> r = withDistance M center s))
       \<and> (\<forall>s\<in>set stations.
             haversine M center s = NaN \<longrightarrow>
             withDistance M center s \<notin> set (findNearbyStations M stations center radiusKm limit))
       \<and> (int (length (filter (\<lambda>s. le_num (haversine M center s) radiusKm) stations)) \<le> limit
            \<longrightarrow>
             mset (findNearbyStations M stations center radiusKm limit)
               = mset (map (withDistance M center)
                        (filter (\<lambda>s. le_num (haversine M center s) radiusKm) stations)))
       \<and> haversine exact \<lparr>lat = Num pa, lon = Num la\<rparr> \<lparr>lat = Num pb, lon = Num lb\<rparr>
           = Num (6371 * arccos (sin (pa * pi / 180) * sin (pb * pi / 180)
                    + cos (pa * pi / 180) * cos (pb * pi / 180) * cos ((lb - la) * pi / 180)))"
proof -
  let ?key = "\<lambda>s. the_num (distance s)"
  let ?in = "\<lambda>s. le_num (haversine M center s) radiusKm"
  let ?within = "filter (\<lambda>s. le_num (distance s) radiusKm) (map (withDistance M center) stations)"
  let ?res = "findNearbyStations M stations center radiusKm limit"
  have w: "?within = map (withDistance M center) (filter ?in stations)"
    by (simp add: filter_map o_def withDistance_def)
  have eq: "?res = take (nat limit) (sort_key ?key ?within)"
    using assms by (simp add: findNearbyStations_def slice0_nonneg)
  have srt: "sorted (map ?key ?res)"
    unfolding eq take_map [symmetric] by (intro sorted_wrt_take) simp
  have len: "int (length ?res) \<le> limit"
    unfolding eq using assms by simp
  have sub: "set ?res \<subseteq> set ?within"
  proof
    fix r assume "r \<in> set ?res"
    then have "r \<in> set (sort_key ?key ?within)"
      unfolding eq by (rule in_set_takeD)
    then show "r \<in> set ?within" by simp
  qed
  have mem: "\<forall>r\<in>set ?res. le_num (distance r) radiusKm
       \<and> (\<exists>s\<in>set stations. ?in s \<and> r = withDistance M center s)"
  proof
    fix r assume "r \<in> set ?res"
    with sub have r: "r \<in> set ?within" by blast
    then have "le_num (distance r) radiusKm" by simp
    moreover from r have "\<exists>s\<in>set stations. ?in s \<and> r = withDistance M center s"
      unfolding w by auto
    ultimately show "le_num (distance r) radiusKm
       \<and> (\<exists>s\<in>set stations. ?in s \<and> r = withDistance M center s)" ..
  qed
  have nan: "\<forall>s\<in>set stations. haversine M center s = NaN \<longrightarrow> withDistance M center s \<notin> set ?res"
  proof (intro ballI impI notI)
    fix s assume n: "haversine M center s = NaN" and "withDistance M center s \<in> set ?res"
    with mem have "le_num (distance (withDistance M center s)) radiusKm" by blast
    then have "distance (withDistance M center s) \<noteq> NaN" by (rule le_num_not_NaN)
    with n show False by (simp add: withDistance_def)
  qed
  have all: "int (length (filter ?in stations)) \<le> limit \<longrightarrow>
             mset ?res = mset (map (withDistance M center) (filter ?in stations))"
  proof
    assume "int (length (filter ?in stations)) \<le> limit"
    then have "length (sort_key ?key ?within) \<le> nat limit"
      unfolding w by simp
    then have "?res = sort_key ?key ?within"
      unfolding eq by simp
    then show "mset ?res = mset (map (withDistance M center) (filter ?in stations))"
      unfolding w by simp
  qed
  have gc: "haversine exact \<lparr>lat = Num pa, lon = Num la\<rparr> \<lparr>lat = Num pb, lon = Num lb\<rparr>
           = Num (6371 * arccos (sin (pa * pi / 180) * sin (pb * pi / 180)
                    + cos (pa * pi / 180) * cos (pb * pi / 180) * cos ((lb - la) * pi / 180)))"
    by (rule haversine_exact) simp_all
  from eq srt len mem nan all gc show ?thesis by blast
qed

text \<open>Three distances in exact arithmetic, from a center at latitude 30.\<close>

lemma haversine_exact_same:
  "lat a = Num p \<Longrightarrow> lon a = Num l \<Longrightarrow> lat b = Num p \<Longrightarrow> lon b = Num l \<Longrightarrow>
   haversine exact a b = Num 0"
proof -
  assume a: "lat a = Num p" "lon a = Num l" "lat b = Num p" "lon b = Num l"
  have "sin (p * pi / 180) * sin (p * pi / 180) + cos (p * pi / 180) * cos (p * pi / 180) = 1"
    using sin_cos_squared_add3 [of "p * pi / 180"] by (simp add: add.commute)
  then show ?thesis
    using haversine_exact [OF a] by simp
qed

lemma haversine_exact_to_pole:
  "haversine exact \<lparr>lat = Num 30, lon = Num 0\<rparr>
     \<lparr>lat = Num 90, lon = Num 0, name = n, crs = c\<rparr> = Num (6371 * pi / 3)"
proof -
  have a: "(30::real) * pi / 180 = pi / 6" "(90::real) * pi / 180 = pi / 2"
    "((0::real) - 0) * pi / 180 = 0"
    by simp_all
  have "arccos (cos (pi / 3)) = pi / 3" by (rule arccos_cos) simp_all
  then have c: "arccos (1 / 2) = pi / 3" by (simp add: cos_60)
  have e: "sin (30 * pi / 180) * sin (90 * pi / 180)
           + cos (30 * pi / 180) * cos (90 * pi / 180) * cos ((0 - 0) * pi / 180) = 1 / 2"
    unfolding a by (simp add: sin_30)
  have "haversine exact \<lparr>lat = Num 30, lon = Num 0\<rparr>
          \<lparr>lat = Num 90, lon = Num 0, name = n, crs = c\<rparr>
        = Num (6371 * arccos (sin (30 * pi / 180) * sin (90 * pi / 180)
           + cos (30 * pi / 180) * cos (90 * pi / 180) * cos ((0 - 0) * pi / 180)))"
    by (rule haversine_exact) simp_all
  then show ?thesis unfolding e c by simp
qed

lemma haversine_exact_to_antipode:
  "haversine exact \<lparr>lat = Num 30, lon = Num 0\<rparr>
     \<lparr>lat = Num (- 30), lon = Num 180, name = n, crs = c\<rparr> = Num (6371 * pi)"
proof -
  have a: "(30::real) * pi / 180 = pi / 6" "(- 30::real) * pi / 180 = - (pi / 6)"
    "((180::real) - 0) * pi / 180 = pi"
    by simp_all
  have q: "sqrt 3 * sqrt 3 = (3::real)" by simp
  have e: "sin (30 * pi / 180) * sin (- 30 * pi / 180)
           + cos (30 * pi / 180) * cos (- 30 * pi / 180) * cos ((180 - 0) * pi / 180) = - 1"
    unfolding a using q by (simp add: sin_30 cos_30)
  have "haversine exact \<lparr>lat = Num 30, lon = Num 0\<rparr>
          \<lparr>lat = Num (- 30), lon = Num 180, name = n, crs = c\<rparr>
        = Num (6371 * arccos (sin (30 * pi / 180) * sin (- 30 * pi / 180)
           + cos (30 * pi / 180) * cos (- 30 * pi / 180) * cos ((180 - 0) * pi / 180)))"
    by (rule haversine_exact) simp_all
  then show ?thesis unfolding e by simp
qed

lemma pi_ge_three: "3 \<le> pi"
proof -
  have "sin (pi / 6) \<le> pi / 6" by (rule sin_x_le_x) simp
  then show ?thesis by (simp add: sin_30)
qed

theorem findNearbyStations_nearest_witness:
  "findNearbyStations exact
     [\<lparr>lat = Num (- 30), lon = Num 180, name = ''Antipode'', crs = ''ANT''\<rparr>,
      \<lparr>lat = Num 90, lon = Num 0, name = ''Pole'', crs = ''POL''\<rparr>,
      \<lparr>lat = Num 30, lon = Num 0, name = ''Here'', crs = ''HER''\<rparr>]
     \<lparr>lat = Num 30, lon = Num 0\<rparr> (Num 15000) 5
   = [\<lparr>lat = Num 30, lon = Num 0, name = ''Here'', crs = ''HER'', distance = Num 0\<rparr>,
      \<lparr>lat = Num 90, lon = Num 0, name = ''Pole'', crs = ''POL'', distance = Num (6371 * pi / 3)\<rparr>]"
proof -
  have h: "\<not> 6371 * pi \<le> 15000" using pi_ge_three by simp
  have q: "6371 * pi \<le> 45000" using pi_less_4 by simp
  show ?thesis
    using findNearbyStations_nearest [of 5 exact
      "[\<lparr>lat = Num (- 30), lon = Num 180, name = ''Antipode'', crs = ''ANT''\<rparr>,
        \<lparr>lat = Num 90, lon = Num 0, name = ''Pole'', crs = ''POL''\<rparr>,
        \<lparr>lat = Num 30, lon = Num 0, name = ''Here'', crs = ''HER''\<rparr>]"
      "\<lparr>lat = Num 30, lon = Num 0\<rparr>" "Num 15000"] h q
    by (simp add: withDistance_def haversine_exact_same [of _ 30 0]
          haversine_exact_to_pole haversine_exact_to_antipode)
qed

text \<open>
  The claim as stated fails for a negative limit, which \<open>slice\<close> counts from the end: of
  two stations within the radius, the limit \<open>-1\<close> returns one, which is more than \<open>limit\<close>
  entries. Both stations are at the center, so every intermediate result of \<open>haversine\<close>
  is 0, 1 or a product with 0, which doubles compute without rounding: the engine's
  arithmetic and the exact one agree here.
\<close>

theorem negative_limit_counterexample:
  "findNearbyStations exact
     [\<lparr>lat = Num 51, lon = Num 0, name = ''Here'', crs = ''HER''\<rparr>,
      \<lparr>lat = Num 51, lon = Num 0, name = ''Also here'', crs = ''ALS''\<rparr>]
     \<lparr>lat = Num 51, lon = Num 0\<rparr> (Num 10) (- 1)
   = [\<lparr>lat = Num 51, lon = Num 0, name = ''Here'', crs = ''HER'', distance = Num 0\<rparr>]
   \<and> \<not> int (length (findNearbyStations exact
         [\<lparr>lat = Num 51, lon = Num 0, name = ''Here'', crs = ''HER''\<rparr>,
          \<lparr>lat = Num 51, lon = Num 0, name = ''Also here'', crs = ''ALS''\<rparr>]
         \<lparr>lat = Num 51, lon = Num 0\<rparr> (Num 10) (- 1))) \<le> - 1"
  by (simp add: findNearbyStations_def withDistance_def haversine_exact_same [of _ 51 0] slice0_def)

section \<open>Properties of handleCompare\<close>

lemma fst_getFares:
  "fst (getFares B o1 d os cl) =
     (case fares_cache cl (o1, d, os) of Some j \<Rightarrow> Inr j | None \<Rightarrow> fetchFares B o1 d os)"
  by (simp add: getFares_def Let_def split: option.splits sum.splits)

lemma getFares_later:
  assumes "getFares B o1 d os cl = (r, cl1)"
  shows "fst (getFares B o2 d os cl1) = fst (getFares B o2 d os cl) \<and> STATIONS cl1 = STATIONS cl"
proof (cases "fares_cache cl (o1, d, os)")
  case (Some j)
  with assms have "cl1 = cl" by (simp add: getFares_def)
  then show ?thesis by simp
next
  case None
  show ?thesis
  proof (cases "fetchFares B o1 d os")
    case (Inl e)
    with None assms have "cl1 = cl" by (simp add: getFares_def)
    then show ?thesis by simp
  next
    case (Inr j)
    with None assms have cl1: "cl1 = cl\<lparr>fares_cache := (fares_cache cl)((o1, d, os) \<mapsto> j)\<rparr>"
      by (simp add: getFares_def)
    show ?thesis
    proof (cases "o2 = o1")
      case True
      then show ?thesis using None Inr cl1 by (simp add: fst_getFares)
    next
      case False
      then show ?thesis using cl1 by (simp add: fst_getFares)
    qed
  qed
qed

lemma truthy_cheapest:
  "parseCheapestFare j = Inr c \<Longrightarrow> truthy c \<longleftrightarrow> c \<noteq> JNull"
  using parseCheapestFare_range [of j c] by auto

lemma tryOrigin_outcome:
  assumes "tryOrigin B d dn os c cl = (r, cl1)"
  shows "(case r of Inr (Some row) \<Rightarrow> Some row | _ \<Rightarrow> None) = outcome B d dn os cl c
       \<and> outcome B d dn os cl1 = outcome B d dn os cl"
proof -
  obtain r0 cl0 where g: "getFares B c d os cl = (r0, cl0)"
    by (cases "getFares B c d os cl")
  have later: "\<And>o2. fst (getFares B o2 d os cl0) = fst (getFares B o2 d os cl)" "STATIONS cl0 = STATIONS cl"
    using getFares_later [OF g] by simp_all
  have cl1: "cl1 = cl0"
    using assms g by (auto simp: tryOrigin_def split: sum.splits if_splits)
  have "(case r of Inr (Some row) \<Rightarrow> Some row | _ \<Rightarrow> None) = outcome B d dn os cl c"
    using assms g later(2)
    by (auto simp: tryOrigin_def outcome_def truthy_cheapest split: sum.splits if_splits)
  moreover have "outcome B d dn os cl1 = outcome B d dn os cl"
    unfolding cl1 outcome_def later ..
  ultimately show ?thesis ..
qed

lemma compareLoop_rows:
  "fst (compareLoop B d dn os checked rows cl) = rows @ List.map_filter (outcome B d dn os cl) checked"
proof (induction checked arbitrary: rows cl)
  case Nil
  then show ?case by (simp add: List.map_filter_simps)
next
  case (Cons c checked)
  obtain r cl1 where t: "tryOrigin B d dn os c cl = (r, cl1)"
    by (cases "tryOrigin B d dn os c cl")
  from tryOrigin_outcome [OF t]
  have o: "(case r of Inr (Some row) \<Rightarrow> Some row | _ \<Rightarrow> None) = outcome B d dn os cl c"
    and same: "outcome B d dn os cl1 = outcome B d dn os cl"
    by simp_all
  show ?case
    using t o Cons.IH [of _ cl1] unfolding same
    by (auto simp: List.map_filter_simps split: sum.splits option.splits)
qed


lemma outcome_price:
  assumes "outcome B d dn os cl c = Some r"
  shows "typeof (lookup r ''price'') = TNumber"
proof -
  from assms obtain fares cheapest where
    p: "parseCheapestFare fares = Inr cheapest" and n: "cheapest \<noteq> JNull"
    and r: "r = makeRow (STATIONS cl) c d dn cheapest"
    by (auto simp: outcome_def split: sum.splits if_splits)
  from parseCheapestFare_range [OF p] n obtain kvs where
    "cheapest = JObj kvs" "typeof (lookup kvs ''p'') = TNumber" by blast
  then show ?thesis
    unfolding r by (simp add: makeRow_def Let_def lookup_def)
qed

text \<open>
  Claim C5. For every list of checked origins the loop of \<open>handleCompare\<close> ends with a
  page that is not an error. Each origin counts on its own: it contributes no row when its
  fares cannot be fetched (and are not cached), when \<open>parseCheapestFare\<close> throws, or when
  there is no priced fare, and it contributes its row otherwise, whatever happens to the
  other origins. The rows shown are all these rows sorted ascending by price (every price
  is a number); with no row the page says \<open>No routes found.\<close>, which is not an error.
  With at least one origin checked, \<open>handleCompare\<close> is this loop.
\<close>

theorem compare_rows:
  "results (fst (compareOrigins B d dn os checked cl)) =
     sort_key (\<lambda>r. num (lookup r ''price''))
       (List.map_filter
          (\<lambda>c. case fst (getFares B c d os cl) of
                 Inl e \<Rightarrow> None
               | Inr fares \<Rightarrow>
                   (case parseCheapestFare fares of
                      Inl e \<Rightarrow> None
                    | Inr cheapest \<Rightarrow>
                        if cheapest = JNull then None
                        else Some (makeRow (STATIONS cl) c d dn cheapest)))
          checked)
   \<and> sorted (map (\<lambda>r. num (lookup r ''price'')) (results (fst (compareOrigins B d dn os checked cl))))
   \<and> (\<forall>r\<in>set (results (fst (compareOrigins B d dn os checked cl))).
         typeof (lookup r ''price'') = TNumber)
   \<and> isError (fst (compareOrigins B d dn os checked cl)) = False
   \<and> status_msg (fst (compareOrigins B d dn os checked cl))
       = (if results (fst (compareOrigins B d dn os checked cl)) = [] then ''No routes found.''
          else ''Found '' @ digits (length (results (fst (compareOrigins B d dn os checked cl))))
                 @ '' routes.'')
   \<and> (checked \<noteq> [] \<longrightarrow>
         handleCompare B d dn os checked pg cl = compareOrigins B d dn os checked cl)"
proof -
  let ?rows = "List.map_filter (outcome B d dn os cl) checked"
  let ?key = "\<lambda>r. num (lookup r ''price'')"
  have loop: "fst (compareLoop B d dn os checked [] cl) = ?rows"
    using compareLoop_rows [of B d dn os checked "[]" cl] by simp
  have res: "results (fst (compareOrigins B d dn os checked cl)) = sort_key ?key ?rows"
    using loop by (auto simp: compareOrigins_def Let_def split: prod.splits)
  have out: "outcome B d dn os cl =
          (\<lambda>c. case fst (getFares B c d os cl) of
                 Inl e \<Rightarrow> None
               | Inr fares \<Rightarrow>
                   (case parseCheapestFare fares of
                      Inl e \<Rightarrow> None
                    | Inr cheapest \<Rightarrow>
                        if cheapest = JNull then None
                        else Some (makeRow (STATIONS cl) c d dn cheapest)))"
    by (rule ext) (simp add: outcome_def)
  have srt: "sorted (map ?key (results (fst (compareOrigins B d dn os checked cl))))"
    unfolding res by simp
  have num: "\<forall>r\<in>set (results (fst (compareOrigins B d dn os checked cl))).
         typeof (lookup r ''price'') = TNumber"
    unfolding res by (auto simp: List.map_filter_def dest: outcome_price)
  have err: "isError (fst (compareOrigins B d dn os checked cl)) = False"
    by (simp add: compareOrigins_def Let_def split: prod.splits)
  have msg: "status_msg (fst (compareOrigins B d dn os checked cl))
       = (if results (fst (compareOrigins B d dn os checked cl)) = [] then ''No routes found.''
          else ''Found '' @ digits (length (results (fst (compareOrigins B d dn os checked cl))))
                 @ '' routes.'')"
    by (simp add: compareOrigins_def Let_def split: prod.splits)
  have hc: "checked \<noteq> [] \<longrightarrow>
         handleCompare B d dn os checked pg cl = compareOrigins B d dn os checked cl"
    by (simp add: handleCompare_def)
  from res [unfolded out] srt num err msg hc show ?thesis by blast
qed

lemma fares_shop:
  "fetchFares
     \<lparr>fetch = (\<lambda>u. if u = ''/api/fares?orig=AAA&dest=MAN''
                    then Some \<lparr>status = 200, body_text = [],
                           parsed = Some (JObj [(''fares'', JArr [JObj [(''adult'', JNum 4500), (''ticket'', JStr ''SVR'')]])])\<rparr>
                    else if u = ''/api/fares?orig=CCC&dest=MAN''
                    then Some \<lparr>status = 200, body_text = [],
                           parsed = Some (JObj [(''fares'', JArr [JObj [(''adult'', JNum 3200), (''ticket'', JStr ''OFF'')]])])\<rparr>
                    else None),
      urlEncode = (\<lambda>x. x)\<rparr> c ''MAN'' \<lparr>journey = ''single'', date = None, time = None, rlc = None\<rparr>
   = (if c = ''AAA'' then Inr (JObj [(''fares'', JArr [JObj [(''adult'', JNum 4500), (''ticket'', JStr ''SVR'')]])])
      else if c = ''CCC'' then Inr (JObj [(''fares'', JArr [JObj [(''adult'', JNum 3200), (''ticket'', JStr ''OFF'')]])])
      else Inl NetworkError)"
  by (simp add: fetchFares_def getFares_params_def set_if_given_def brFaresBase_def ok_def Let_def)

theorem compare_rows_witness:
  "results (fst (handleCompare
     \<lparr>fetch = (\<lambda>u. if u = ''/api/fares?orig=AAA&dest=MAN''
                    then Some \<lparr>status = 200, body_text = [],
                           parsed = Some (JObj [(''fares'', JArr [JObj [(''adult'', JNum 4500), (''ticket'', JStr ''SVR'')]])])\<rparr>
                    else if u = ''/api/fares?orig=CCC&dest=MAN''
                    then Some \<lparr>status = 200, body_text = [],
                           parsed = Some (JObj [(''fares'', JArr [JObj [(''adult'', JNum 3200), (''ticket'', JStr ''OFF'')]])])\<rparr>
                    else None),
      urlEncode = (\<lambda>x. x)\<rparr>
     ''MAN'' ''Manchester'' \<lparr>journey = ''single'', date = None, time = None, rlc = None\<rparr>
     [''AAA'', ''BBB'', ''CCC'']
     \<lparr>results = [], status_msg = [], isError = False\<rparr>
     \<lparr>STATIONS = [], stations_cache = None, fares_cache = Map.empty\<rparr>))
   = [[(''origin'', JStr ''CCC''), (''originName'', JStr ''CCC''), (''dest'', JStr ''MAN''),
       (''destName'', JStr ''Manchester''), (''ticket'', JStr ''OFF''),
       (''ticketName'', JStr ''Cheapest''), (''price'', JNum 3200)],
      [(''origin'', JStr ''AAA''), (''originName'', JStr ''AAA''), (''dest'', JStr ''MAN''),
       (''destName'', JStr ''Manchester''), (''ticket'', JStr ''SVR''),
       (''ticketName'', JStr ''Cheapest''), (''price'', JNum 4500)]]
   \<and> status_msg (fst (handleCompare
     \<lparr>fetch = (\<lambda>u. if u = ''/api/fares?orig=AAA&dest=MAN''
                    then Some \<lparr>status = 200, body_text = [],
                           parsed = Some (JObj [(''fares'', JArr [JObj [(''adult'', JNum 4500), (''ticket'', JStr ''SVR'')]])])\<rparr>
                    else if u = ''/api/fares?orig=CCC&dest=MAN''
                    then Some \<lparr>status = 200, body_text = [],
                           parsed = Some (JObj [(''fares'', JArr [JObj [(''adult'', JNum 3200), (''ticket'', JStr ''OFF'')]])])\<rparr>
                    else None),
      urlEncode = (\<lambda>x. x)\<rparr>
     ''MAN'' ''Manchester'' \<lparr>journey = ''single'', date = None, time = None, rlc = None\<rparr>
     [''AAA'', ''BBB'', ''CCC'']
     \<lparr>results = [], status_msg = [], isError = False\<rparr>
     \<lparr>STATIONS = [], stations_cache = None, fares_cache = Map.empty\<rparr>)) = ''Found 2 routes.''
   \<and> isError (fst (handleCompare
     \<lparr>fetch = (\<lambda>u. if u = ''/api/fares?orig=AAA&dest=MAN''
                    then Some \<lparr>status = 200, body_text = [],
                           parsed = Some (JObj [(''fares'', JArr [JObj [(''adult'', JNum 4500), (''ticket'', JStr ''SVR'')]])])\<rparr>
                    else if u = ''/api/fares?orig=CCC&dest=MAN''
                    then Some \<lparr>status = 200, body_text = [],
                           parsed = Some (JObj [(''fares'', JArr [JObj [(''adult'', JNum 3200), (''ticket'', JStr ''OFF'')]])])\<rparr>
                    else None),
      urlEncode = (\<lambda>x. x)\<rparr>
     ''MAN'' ''Manchester'' \<lparr>journey = ''single'', date = None, time = None, rlc = None\<rparr>
     [''AAA'', ''BBB'', ''CCC'']
     \<lparr>results = [], status_msg = [], isError = False\<rparr>
     \<lparr>STATIONS = [], stations_cache = None, fares_cache = Map.empty\<rparr>)) = False"
proof -
  have g: "\<And>c. fst (getFares
     \<lparr>fetch = (\<lambda>u. if u = ''/api/fares?orig=AAA&dest=MAN''
                    then Some \<lparr>status = 200, body_text = [],
                           parsed = Some (JObj [(''fares'', JArr [JObj [(''adult'', JNum 4500), (''ticket'', JStr ''SVR'')]])])\<rparr>
                    else if u = ''/api/fares?orig=CCC&dest=MAN''
                    then Some \<lparr>status = 200, body_text = [],
                           parsed = Some (JObj [(''fares'', JArr [JObj [(''adult'', JNum 3200), (''ticket'', JStr ''OFF'')]])])\<rparr>
                    else None),
      urlEncode = (\<lambda>x. x)\<rparr>
       c ''MAN'' \<lparr>journey = ''single'', date = None, time = None, rlc = None\<rparr>
       \<lparr>STATIONS = [], stations_cache = None, fares_cache = Map.empty\<rparr>)
     = (if c = ''AAA'' then Inr (JObj [(''fares'', JArr [JObj [(''adult'', JNum 4500), (''ticket'', JStr ''SVR'')]])])
      else if c = ''CCC'' then Inr (JObj [(''fares'', JArr [JObj [(''adult'', JNum 3200), (''ticket'', JStr ''OFF'')]])])
      else Inl NetworkError)"
    by (simp add: getFares_def fares_shop)
  have p: "parseCheapestFare (JObj [(''fares'', JArr [JObj [(''adult'', JNum 4500), (''ticket'', JStr ''SVR'')]])])
             = Inr (JObj [(''adult'', JNum 4500), (''ticket'', JStr ''SVR''), (''p'', JNum 4500)])"
     "parseCheapestFare (JObj [(''fares'', JArr [JObj [(''adult'', JNum 3200), (''ticket'', JStr ''OFF'')]])])
             = Inr (JObj [(''adult'', JNum 3200), (''ticket'', JStr ''OFF''), (''p'', JNum 3200)])"
    by (simp_all add: parseCheapestFare_def withP_def getPrice_def lookup_def nullish_def)
  show ?thesis
    using compare_rows [of
     "\<lparr>fetch = (\<lambda>u. if u = ''/api/fares?orig=AAA&dest=MAN''
                    then Some \<lparr>status = 200, body_text = [],
                           parsed = Some (JObj [(''fares'', JArr [JObj [(''adult'', JNum 4500), (''ticket'', JStr ''SVR'')]])])\<rparr>
                    else if u = ''/api/fares?orig=CCC&dest=MAN''
                    then Some \<lparr>status = 200, body_text = [],
                           parsed = Some (JObj [(''fares'', JArr [JObj [(''adult'', JNum 3200), (''ticket'', JStr ''OFF'')]])])\<rparr>
                    else None),
      urlEncode = (\<lambda>x. x)\<rparr>"
     "''MAN''" "''Manchester''" "\<lparr>journey = ''single'', date = None, time = None, rlc = None\<rparr>"
     "[''AAA'', ''BBB'', ''CCC'']"
     "\<lparr>STATIONS = [], stations_cache = None, fares_cache = Map.empty\<rparr>"
     "\<lparr>results = [], status_msg = [], isError = False\<rparr>"]
    unfolding g
    by (simp add: p List.map_filter_simps makeRow_def stationByCRS_def or_js_def lookup_def
          digits.simps)
qed

section \<open>Properties of the cache\<close>

lemma getCache_entry:
  "cache s k = Some e \<Longrightarrow>
   getCache k s =
     (if clock s > expires e
      then (JNull, s\<lparr>cache := (cache s)(k := None), trace := trace s @ [CacheGet k, CacheDelete k]\<rparr>)
      else (val e, s\<lparr>trace := trace s @ [CacheGet k]\<rparr>))"
  by (simp add: getCache_def Let_def)

lemma getCache_absent:
  "cache s k = None \<Longrightarrow> getCache k s = (JNull, s\<lparr>trace := trace s @ [CacheGet k]\<rparr>)"
  by (simp add: getCache_def Let_def)

text \<open>
  Claim C3, as amended. For a time to live that is not negative, a \<open>getCache\<close> right
  after \<open>putCache key v ttl\<close> returns \<open>v\<close>. The entry expires at the time of the put plus
  \<open>ttl\<close>; read at a time \<open>t\<close> up to and including that instant it is returned and stays
  in the cache, and read at a later time it is a miss (\<open>null\<close>) and is removed.
\<close>

theorem cache_roundtrip:
  "(0 \<le> ttl \<longrightarrow> fst (getCache k (putCache k v (Some ttl) s)) = v)
   \<and> (t \<le> clock s + ttl \<longrightarrow>
        fst (getCache k ((putCache k v (Some ttl) s)\<lparr>clock := t\<rparr>)) = v
        \<and> cache (snd (getCache k ((putCache k v (Some ttl) s)\<lparr>clock := t\<rparr>))) k
            = Some \<lparr>val = v, expires = clock s + ttl\<rparr>)
   \<and> (clock s + ttl < t \<longrightarrow>
        fst (getCache k ((putCache k v (Some ttl) s)\<lparr>clock := t\<rparr>)) = JNull
        \<and> cache (snd (getCache k ((putCache k v (Some ttl) s)\<lparr>clock := t\<rparr>))) k = None)"
  by (simp add: getCache_def putCache_def Let_def)

theorem cache_roundtrip_witness:
  "(0::int) \<le> 500 \<and> fst (getCache ''k'' (putCache ''k'' (JStr ''v'') (Some 500) (boot 1000))) = JStr ''v''
   \<and> (1500::int) \<le> clock (boot 1000) + 500
   \<and> fst (getCache ''k'' ((putCache ''k'' (JStr ''v'') (Some 500) (boot 1000))\<lparr>clock := 1500\<rparr>)) = JStr ''v''
   \<and> clock (boot 1000) + 500 < (1501::int)
   \<and> fst (getCache ''k'' ((putCache ''k'' (JStr ''v'') (Some 500) (boot 1000))\<lparr>clock := 1501\<rparr>)) = JNull
   \<and> cache (snd (getCache ''k'' ((putCache ''k'' (JStr ''v'') (Some 500) (boot 1000))\<lparr>clock := 1501\<rparr>))) ''k'' = None"
  using cache_roundtrip [of 500 "''k''" "JStr ''v''" "boot 1000" 1500]
        cache_roundtrip [of 500 "''k''" "JStr ''v''" "boot 1000" 1501]
  by (simp add: boot_def)

text \<open>
  The claim as stated fails at the boundary: an entry put at time 1000 with a time to live
  of 500 and read at time 1500, when the clock has reached the expiry, is still returned
  and still stored. It also fails for a negative time to live, where the read right after
  the put is a miss.
\<close>

theorem cache_boundary_counterexample:
  "fst (getCache ''k'' ((putCache ''k'' (JStr ''v'') (Some 500) (boot 1000))\<lparr>clock := 1500\<rparr>)) = JStr ''v''
   \<and> cache (snd (getCache ''k'' ((putCache ''k'' (JStr ''v'') (Some 500) (boot 1000))\<lparr>clock := 1500\<rparr>))) ''k''
       = Some \<lparr>val = JStr ''v'', expires = 1500\<rparr>
   \<and> fst (getCache ''k'' (putCache ''k'' (JStr ''v'') (Some (- 1)) (boot 1000))) = JNull"
  by (simp add: getCache_def putCache_def Let_def boot_def)

text \<open>
  Claim C4, as amended. \<open>getCache\<close> returns the stored value of an entry that has not
  expired, and \<open>null\<close> when the key is absent or the entry has expired; a stored truthy
  value that has not expired is returned by \<open>cachedFetchJson\<close> with no upstream fetch and
  no change to the cache.
\<close>

theorem cache_hit_no_refetch:
  "(\<forall>e. cache s key = Some e \<and> clock s \<le> expires e \<longrightarrow> fst (getCache key s) = val e)
   \<and> (cache s key = None \<or> (\<exists>e. cache s key = Some e \<and> expires e < clock s)
        \<longrightarrow> fst (getCache key s) = JNull)
   \<and> (\<forall>e. cache s (''fetch:'' @ url) = Some e \<and> clock s \<le> expires e \<and> truthy (val e) \<longrightarrow>
          cachedFetchJson E url ttl s
            = (Inr (val e), s\<lparr>trace := trace s @ [CacheGet (''fetch:'' @ url)]\<rparr>))"
  by (auto simp: getCache_def cachedFetchJson_def Let_def)

theorem cache_hit_no_refetch_witness:
  "fst (getCache ''fetch:u'' (putCache ''fetch:u'' (JArr []) (Some 500) (boot 1000))) = JArr []
   \<and> fst (getCache ''fetch:u'' (boot 1000)) = JNull
   \<and> fst (getCache ''fetch:u'' ((putCache ''fetch:u'' (JArr []) (Some 500) (boot 1000))\<lparr>clock := 1501\<rparr>)) = JNull
   \<and> cachedFetchJson (example_env (\<lambda>u. (0, None))) ''u'' None
        (putCache ''fetch:u'' (JArr []) (Some 500) (boot 1000))
      = (Inr (JArr []),
         (putCache ''fetch:u'' (JArr []) (Some 500) (boot 1000))
           \<lparr>trace := [CachePut ''fetch:u'', CacheGet ''fetch:u'']\<rparr>)"
  using cache_hit_no_refetch [of "putCache ''fetch:u'' (JArr []) (Some 500) (boot 1000)" "''fetch:u''" "''u''"
          "example_env (\<lambda>u. (0, None))" None]
        cache_hit_no_refetch [of "boot 1000" "''fetch:u''" "''u''" "example_env (\<lambda>u. (0, None))" None]
        cache_hit_no_refetch [of "(putCache ''fetch:u'' (JArr []) (Some 500) (boot 1000))\<lparr>clock := 1501\<rparr>"
          "''fetch:u''" "''u''" "example_env (\<lambda>u. (0, None))" None]
  by (simp add: putCache_def boot_def)

text \<open>
  The claim as stated fails for a stored \<open>null\<close>: reading it back gives the very value
  a miss gives, and \<open>cachedFetchJson\<close> fetches upstream again although the entry has not
  expired.
\<close>

theorem stored_null_counterexample:
  "fst (getCache ''fetch:u'' (putCache ''fetch:u'' JNull (Some 500) (boot 1000)))
     = fst (getCache ''fetch:u'' (boot 1000))
   \<and> trace (snd (cachedFetchJson
        (example_env (\<lambda>u. (0, Some \<lparr>status = 200, body_text = ''null'', parsed = Some JNull\<rparr>)))
        ''u'' (Some 500) (putCache ''fetch:u'' JNull (Some 500) (boot 1000))))
     = [CachePut ''fetch:u'', CacheGet ''fetch:u'', Fetch ''u'', CachePut ''fetch:u'']"
  by (simp add: getCache_def putCache_def cachedFetchJson_def boot_def example_env_def Let_def ok_def)

section \<open>Properties of the endpoints\<close>

lemma cachedFetchJson_mirror:
  "mirror (snd (cachedFetchJson E url ttl s)) = mirror s"
  by (simp add: cachedFetchJson_def getCache_def putCache_def Let_def
           split: option.splits prod.splits)

lemma offline_fetch:
  "fst (cachedFetchJson (example_env (\<lambda>u. (0, None))) url ttl ((boot 0)\<lparr>mirror := m\<rparr>)) = Inl NetworkError"
  by (simp add: cachedFetchJson_def getCache_def example_env_def boot_def Let_def)

lemma notfound_fetch:
  "fst (cachedFetchJson (example_env (\<lambda>u. (0, Some \<lparr>status = 404, body_text = ''Not Found'', parsed = None\<rparr>)))
        url ttl ((boot 0)\<lparr>mirror := m\<rparr>)) = Inl (HttpError 404 ''Not Found'')"
  by (simp add: cachedFetchJson_def getCache_def example_env_def boot_def Let_def ok_def)

text \<open>
  Claim C6. When the cached or remote fetch of the stations list fails with error \<open>e\<close>,
  \<open>GET /api/stations\<close> reads the mirror file: if it exists and parses, the answer is 200
  with the parsed content; if it is missing or does not parse, the answer is the error
  body with the status of \<open>e\<close>, or 502 when \<open>e\<close> has none.
\<close>

theorem api_stations_fallback:
  assumes "fst (cachedFetchJson E stationsRemote (Some (STATIONS_MS E)) s) = Inl e"
  shows "(\<forall>raw j. mirror s = Some raw \<and> JSON_parse E raw = Some j \<longrightarrow>
            fst (api_stations E s) = \<lparr>code = 200, body = j\<rparr>)
       \<and> (mirror s = None \<or> (\<exists>raw. mirror s = Some raw \<and> JSON_parse E raw = None) \<longrightarrow>
            fst (api_stations E s) =
              \<lparr>code = (case e of HttpError st msg \<Rightarrow> if st = 0 then 502 else st | _ \<Rightarrow> 502),
               body = JObj [(''error'', JStr ''Failed to retrieve stations'')]\<rparr>)"
proof -
  obtain r s1 where c: "cachedFetchJson E stationsRemote (Some (STATIONS_MS E)) s = (r, s1)"
    by (cases "cachedFetchJson E stationsRemote (Some (STATIONS_MS E)) s")
  with assms have r: "r = Inl e" by simp
  have m: "mirror s1 = mirror s"
    using cachedFetchJson_mirror [of E stationsRemote "Some (STATIONS_MS E)" s] c by simp
  have st: "status_or_502 e = (case e of HttpError st msg \<Rightarrow> if st = 0 then 502 else st | _ \<Rightarrow> 502)"
    by (cases e) simp_all
  show ?thesis
    using c r m st by (auto simp: api_stations_def error_body_def split: option.splits)
qed

theorem api_stations_fallback_witness:
  "fst (api_stations (example_env (\<lambda>u. (0, None))) ((boot 0)\<lparr>mirror := Some ''[]''\<rparr>))
     = \<lparr>code = 200, body = JArr []\<rparr>
   \<and> fst (api_stations (example_env (\<lambda>u. (0, None))) ((boot 0)\<lparr>mirror := None\<rparr>))
     = \<lparr>code = 502, body = JObj [(''error'', JStr ''Failed to retrieve stations'')]\<rparr>
   \<and> fst (api_stations
            (example_env (\<lambda>u. (0, Some \<lparr>status = 404, body_text = ''Not Found'', parsed = None\<rparr>)))
            ((boot 0)\<lparr>mirror := Some ''{''\<rparr>))
     = \<lparr>code = 404, body = JObj [(''error'', JStr ''Failed to retrieve stations'')]\<rparr>"
  using api_stations_fallback [OF offline_fetch, of "Some ''[]''"]
        api_stations_fallback [OF offline_fetch, of None]
        api_stations_fallback [OF notfound_fetch, of "Some ''{''"]
  by (simp add: example_env_def boot_def)

text \<open>
  Claim C7. When the \<open>orig\<close> or the \<open>dest\<close> parameter of \<open>GET /api/fares\<close> is missing,
  the answer is 400 with the body \<open>{error:"orig and dest are required"}\<close>, and the server
  state is unchanged: no cache access and no upstream fetch.
\<close>

theorem fares_missing_param:
  assumes "q ''orig'' = None \<or> q ''dest'' = None"
  shows "api_fares E q s =
           (\<lparr>code = 400, body = JObj [(''error'', JStr ''orig and dest are required'')]\<rparr>, s)"
  using assms by (auto simp: api_fares_def error_body_def split: option.splits)

theorem fares_missing_param_witness:
  "api_fares (example_env (\<lambda>u. (0, None))) [''dest'' \<mapsto> ''MAN''] (boot 0)
     = (\<lparr>code = 400, body = JObj [(''error'', JStr ''orig and dest are required'')]\<rparr>, boot 0)"
  using fares_missing_param [of "[''dest'' \<mapsto> ''MAN'']" "example_env (\<lambda>u. (0, None))" "boot 0"]
  by simp

lemma dropWhile_all: "(\<forall>x\<in>set (dropWhile P xs). P x) \<longleftrightarrow> (\<forall>x\<in>set xs. P x)"
  by (induction xs) auto

lemma trim_empty_iff: "trim t = [] \<longleftrightarrow> (\<forall>c\<in>set t. isWhiteSpace c)"
  by (simp add: trim_def dropWhile_eq_Nil_conv dropWhile_all)

lemma query_term_empty:
  "q ''term'' = None \<or> (\<exists>t. q ''term'' = Some t \<and> (\<forall>c\<in>set t. isWhiteSpace c)) \<Longrightarrow> query_term q = []"
  by (auto simp: query_term_def trim_empty_iff)

text \<open>
  Claim C8. When the \<open>term\<close> parameter of \<open>GET /api/loc\<close> or \<open>GET /api/railcards\<close> is
  missing, empty or made of white space only, the answer is 200 with the empty array, and
  the server state is unchanged: no cache access and no upstream fetch.
\<close>

theorem search_empty_term:
  assumes "q ''term'' = None \<or> (\<exists>t. q ''term'' = Some t \<and> (\<forall>c\<in>set t. isWhiteSpace c))"
  shows "api_loc E q s = (\<lparr>code = 200, body = JArr []\<rparr>, s)
       \<and> api_railcards E q s = (\<lparr>code = 200, body = JArr []\<rparr>, s)"
  using query_term_empty [of q, OF assms]
  by (simp add: api_loc_def api_railcards_def search_proxy_def)

theorem search_empty_term_witness:
  "api_loc (example_env (\<lambda>u. (0, None))) [''term'' \<mapsto> ''  ''] (boot 0)
     = (\<lparr>code = 200, body = JArr []\<rparr>, boot 0)
   \<and> api_railcards (example_env (\<lambda>u. (0, None))) [''term'' \<mapsto> ''  ''] (boot 0)
     = (\<lparr>code = 200, body = JArr []\<rparr>, boot 0)"
  using search_empty_term [of "[''term'' \<mapsto> ''  '']" "example_env (\<lambda>u. (0, None))" "boot 0"]
  by (simp add: isWhiteSpace_def)

text \<open>
  Claim C10. For \<open>GET /api/fares\<close> the upstream parameters are \<open>orig\<close> and \<open>dest\<close>,
  then each of \<open>date\<close>, \<open>time\<close> and \<open>rlc\<close> that is given and not empty, with its given
  value, then \<open>rtn\<close> with the literal value \<open>1\<close> unless the \<open>rtn\<close> parameter is absent or
  empty (so also for \<open>rtn=0\<close> and \<open>rtn=false\<close>); with \<open>orig\<close> and \<open>dest\<close> present, the
  handler answers from \<open>cachedFetchJson\<close> on the URL made of these parameters.
\<close>

theorem fares_upstream_query:
  "fares_params orig dest q =
     [(''orig'', orig), (''dest'', dest)]
     @ concat (map (\<lambda>k. case q k of None \<Rightarrow> [] | Some v \<Rightarrow> if v = [] then [] else [(k, v)])
                [''date'', ''time'', ''rlc''])
     @ (if q ''rtn'' = None \<or> q ''rtn'' = Some [] then [] else [(''rtn'', ''1'')])
   \<and> (q ''orig'' = Some orig \<and> orig \<noteq> [] \<and> q ''dest'' = Some dest \<and> dest \<noteq> [] \<longrightarrow>
        api_fares E q s =
          (case cachedFetchJson E
                  (''https://gw.brfares.com/legacy_querysimple?''
                     @ params_toString (formEncode E) (fares_params orig dest q))
                  (Some (FARES_MS E)) s of
             (Inr json, s1) \<Rightarrow> (\<lparr>code = 200, body = json\<rparr>, s1)
           | (Inl e, s1) \<Rightarrow>
               (\<lparr>code = status_or_502 e, body = JObj [(''error'', JStr ''Failed to fetch fares'')]\<rparr>, s1)))"
proof (intro conjI impI)
  show "fares_params orig dest q =
     [(''orig'', orig), (''dest'', dest)]
     @ concat (map (\<lambda>k. case q k of None \<Rightarrow> [] | Some v \<Rightarrow> if v = [] then [] else [(k, v)])
                [''date'', ''time'', ''rlc''])
     @ (if q ''rtn'' = None \<or> q ''rtn'' = Some [] then [] else [(''rtn'', ''1'')])"
    by (simp add: fares_params_def set_if_given_def params_set_def Let_def split: option.splits)
next
  assume "q ''orig'' = Some orig \<and> orig \<noteq> [] \<and> q ''dest'' = Some dest \<and> dest \<noteq> []"
  then show "api_fares E q s =
          (case cachedFetchJson E
                  (''https://gw.brfares.com/legacy_querysimple?''
                     @ params_toString (formEncode E) (fares_params orig dest q))
                  (Some (FARES_MS E)) s of
             (Inr json, s1) \<Rightarrow> (\<lparr>code = 200, body = json\<rparr>, s1)
           | (Inl e, s1) \<Rightarrow>
               (\<lparr>code = status_or_502 e, body = JObj [(''error'', JStr ''Failed to fetch fares'')]\<rparr>, s1))"
    unfolding api_fares_def fares_url_def error_body_def by simp
qed

theorem fares_upstream_query_witness:
  "fares_params ''PAD'' ''MAN'' [''orig'' \<mapsto> ''PAD'', ''dest'' \<mapsto> ''MAN'', ''rtn'' \<mapsto> ''0'', ''date'' \<mapsto> ''2026-01-02'']
     = [(''orig'', ''PAD''), (''dest'', ''MAN''), (''date'', ''2026-01-02''), (''rtn'', ''1'')]
   \<and> trace (snd (api_fares (example_env (\<lambda>u. (0, None)))
              [''orig'' \<mapsto> ''PAD'', ''dest'' \<mapsto> ''MAN'', ''rtn'' \<mapsto> ''0'', ''date'' \<mapsto> ''2026-01-02''] (boot 0)))
     = [CacheGet ''fetch:https://gw.brfares.com/legacy_querysimple?orig=PAD&dest=MAN&date=2026-01-02&rtn=1'',
        Fetch ''https://gw.brfares.com/legacy_querysimple?orig=PAD&dest=MAN&date=2026-01-02&rtn=1'']"
  using fares_upstream_query [of "''PAD''" "''MAN''"
      "[''orig'' \<mapsto> ''PAD'', ''dest'' \<mapsto> ''MAN'', ''rtn'' \<mapsto> ''0'', ''date'' \<mapsto> ''2026-01-02'']"
      "example_env (\<lambda>u. (0, None))" "boot 0"]
  by (simp add: cachedFetchJson_def getCache_def example_env_def boot_def Let_def)

end
